theory Spec2Isabelle
  imports Complex_Main "HOL-Library.List_Lexorder" "HOL-Library.Multiset"
begin

section \<open>Python strings\<close>

text \<open>
  A Python 3 \<open>str\<close> is a sequence of Unicode code points, so a string of the scripts is a
  list of code points (natural numbers), and its length counts code points. \<open>lit\<close> writes
  an ASCII literal of the source as such a string. Python compares strings code point by
  code point, which is the lexicographic order of the lists.
\<close>

type_synonym codepoint = nat
type_synonym pystr = "codepoint list"

definition lit :: "string \<Rightarrow> pystr" where
  "lit s = map of_char s"

text \<open>
  \<open>str.replace(old, new)\<close>: every non-overlapping occurrence of \<open>old\<close>, found from the left,
  is replaced by \<open>new\<close>. With an empty \<open>old\<close>, Python puts \<open>new\<close> before every character and
  at the end.
\<close>

fun py_replace :: "pystr \<Rightarrow> pystr \<Rightarrow> pystr \<Rightarrow> pystr" where
  "py_replace old new [] = (if old = [] then new else [])"
| "py_replace old new (c # cs) =
     (if old = [] then new @ c # py_replace old new cs
      else if take (length old) (c # cs) = old
           then new @ py_replace old new (drop (length old) (c # cs))
           else c # py_replace old new cs)"

text \<open>
  The class \<open>\w\<close> of a \<open>str\<close> pattern is Unicode aware: a code point is a word character
  when it is the underscore or \<open>str.isalnum\<close> holds of it (a letter or a decimal, digit or
  numeric character of any script). \<open>word_ranges\<close> is that table above ASCII, the inclusive
  ranges of the code points \<open>c \<ge> 128\<close> with \<open>re.match(r'\w', chr(c))\<close> in CPython 3.11
  (Unicode 14.0.0).
\<close>

definition ascii_word :: "codepoint \<Rightarrow> bool" where
  "ascii_word c = (48 \<le> c \<and> c \<le> 57 \<or> 65 \<le> c \<and> c \<le> 90 \<or> c = 95 \<or> 97 \<le> c \<and> c \<le> 122)"

definition word_ranges :: "(codepoint \<times> codepoint) list" where
  "word_ranges = [
    (170, 170), (178, 179), (181, 181), (185, 186), (188, 190), (192, 214), (216, 246),
    (248, 705), (710, 721), (736, 740), (748, 748), (750, 750), (880, 884), (886, 887),
    (890, 893), (895, 895), (902, 902), (904, 906), (908, 908), (910, 929), (931, 1013),
    (1015, 1153), (1162, 1327), (1329, 1366), (1369, 1369), (1376, 1416), (1488, 1514),
    (1519, 1522), (1568, 1610), (1632, 1641), (1646, 1647), (1649, 1747), (1749, 1749),
    (1765, 1766), (1774, 1788), (1791, 1791), (1808, 1808), (1810, 1839), (1869, 1957),
    (1969, 1969), (1984, 2026), (2036, 2037), (2042, 2042), (2048, 2069), (2074, 2074),
    (2084, 2084), (2088, 2088), (2112, 2136), (2144, 2154), (2160, 2183), (2185, 2190),
    (2208, 2249), (2308, 2361), (2365, 2365), (2384, 2384), (2392, 2401), (2406, 2415),
    (2417, 2432), (2437, 2444), (2447, 2448), (2451, 2472), (2474, 2480), (2482, 2482),
    (2486, 2489), (2493, 2493), (2510, 2510), (2524, 2525), (2527, 2529), (2534, 2545),
    (2548, 2553), (2556, 2556), (2565, 2570), (2575, 2576), (2579, 2600), (2602, 2608),
    (2610, 2611), (2613, 2614), (2616, 2617), (2649, 2652), (2654, 2654), (2662, 2671),
    (2674, 2676), (2693, 2701), (2703, 2705), (2707, 2728), (2730, 2736), (2738, 2739),
    (2741, 2745), (2749, 2749), (2768, 2768), (2784, 2785), (2790, 2799), (2809, 2809),
    (2821, 2828), (2831, 2832), (2835, 2856), (2858, 2864), (2866, 2867), (2869, 2873),
    (2877, 2877), (2908, 2909), (2911, 2913), (2918, 2927), (2929, 2935), (2947, 2947),
    (2949, 2954), (2958, 2960), (2962, 2965), (2969, 2970), (2972, 2972), (2974, 2975),
    (2979, 2980), (2984, 2986), (2990, 3001), (3024, 3024), (3046, 3058), (3077, 3084),
    (3086, 3088), (3090, 3112), (3114, 3129), (3133, 3133), (3160, 3162), (3165, 3165),
    (3168, 3169), (3174, 3183), (3192, 3198), (3200, 3200), (3205, 3212), (3214, 3216),
    (3218, 3240), (3242, 3251), (3253, 3257), (3261, 3261), (3293, 3294), (3296, 3297),
    (3302, 3311), (3313, 3314), (3332, 3340), (3342, 3344), (3346, 3386), (3389, 3389),
    (3406, 3406), (3412, 3414), (3416, 3425), (3430, 3448), (3450, 3455), (3461, 3478),
    (3482, 3505), (3507, 3515), (3517, 3517), (3520, 3526), (3558, 3567), (3585, 3632),
    (3634, 3635), (3648, 3654), (3664, 3673), (3713, 3714), (3716, 3716), (3718, 3722),
    (3724, 3747), (3749, 3749), (3751, 3760), (3762, 3763), (3773, 3773), (3776, 3780),
    (3782, 3782), (3792, 3801), (3804, 3807), (3840, 3840), (3872, 3891), (3904, 3911),
    (3913, 3948), (3976, 3980), (4096, 4138), (4159, 4169), (4176, 4181), (4186, 4189),
    (4193, 4193), (4197, 4198), (4206, 4208), (4213, 4225), (4238, 4238), (4240, 4249),
    (4256, 4293), (4295, 4295), (4301, 4301), (4304, 4346), (4348, 4680), (4682, 4685),
    (4688, 4694), (4696, 4696), (4698, 4701), (4704, 4744), (4746, 4749), (4752, 4784),
    (4786, 4789), (4792, 4798), (4800, 4800), (4802, 4805), (4808, 4822), (4824, 4880),
    (4882, 4885), (4888, 4954), (4969, 4988), (4992, 5007), (5024, 5109), (5112, 5117),
    (5121, 5740), (5743, 5759), (5761, 5786), (5792, 5866), (5870, 5880), (5888, 5905),
    (5919, 5937), (5952, 5969), (5984, 5996), (5998, 6000), (6016, 6067), (6103, 6103),
    (6108, 6108), (6112, 6121), (6128, 6137), (6160, 6169), (6176, 6264), (6272, 6276),
    (6279, 6312), (6314, 6314), (6320, 6389), (6400, 6430), (6470, 6509), (6512, 6516),
    (6528, 6571), (6576, 6601), (6608, 6618), (6656, 6678), (6688, 6740), (6784, 6793),
    (6800, 6809), (6823, 6823), (6917, 6963), (6981, 6988), (6992, 7001), (7043, 7072),
    (7086, 7141), (7168, 7203), (7232, 7241), (7245, 7293), (7296, 7304), (7312, 7354),
    (7357, 7359), (7401, 7404), (7406, 7411), (7413, 7414), (7418, 7418), (7424, 7615),
    (7680, 7957), (7960, 7965), (7968, 8005), (8008, 8013), (8016, 8023), (8025, 8025),
    (8027, 8027), (8029, 8029), (8031, 8061), (8064, 8116), (8118, 8124), (8126, 8126),
    (8130, 8132), (8134, 8140), (8144, 8147), (8150, 8155), (8160, 8172), (8178, 8180),
    (8182, 8188), (8304, 8305), (8308, 8313), (8319, 8329), (8336, 8348), (8450, 8450),
    (8455, 8455), (8458, 8467), (8469, 8469), (8473, 8477), (8484, 8484), (8486, 8486),
    (8488, 8488), (8490, 8493), (8495, 8505), (8508, 8511), (8517, 8521), (8526, 8526),
    (8528, 8585), (9312, 9371), (9450, 9471), (10102, 10131), (11264, 11492), (11499, 11502),
    (11506, 11507), (11517, 11517), (11520, 11557), (11559, 11559), (11565, 11565),
    (11568, 11623), (11631, 11631), (11648, 11670), (11680, 11686), (11688, 11694),
    (11696, 11702), (11704, 11710), (11712, 11718), (11720, 11726), (11728, 11734),
    (11736, 11742), (11823, 11823), (12293, 12295), (12321, 12329), (12337, 12341),
    (12344, 12348), (12353, 12438), (12445, 12447), (12449, 12538), (12540, 12543),
    (12549, 12591), (12593, 12686), (12690, 12693), (12704, 12735), (12784, 12799),
    (12832, 12841), (12872, 12879), (12881, 12895), (12928, 12937), (12977, 12991),
    (13312, 19903), (19968, 42124), (42192, 42237), (42240, 42508), (42512, 42539),
    (42560, 42606), (42623, 42653), (42656, 42735), (42775, 42783), (42786, 42888),
    (42891, 42954), (42960, 42961), (42963, 42963), (42965, 42969), (42994, 43009),
    (43011, 43013), (43015, 43018), (43020, 43042), (43056, 43061), (43072, 43123),
    (43138, 43187), (43216, 43225), (43250, 43255), (43259, 43259), (43261, 43262),
    (43264, 43301), (43312, 43334), (43360, 43388), (43396, 43442), (43471, 43481),
    (43488, 43492), (43494, 43518), (43520, 43560), (43584, 43586), (43588, 43595),
    (43600, 43609), (43616, 43638), (43642, 43642), (43646, 43695), (43697, 43697),
    (43701, 43702), (43705, 43709), (43712, 43712), (43714, 43714), (43739, 43741),
    (43744, 43754), (43762, 43764), (43777, 43782), (43785, 43790), (43793, 43798),
    (43808, 43814), (43816, 43822), (43824, 43866), (43868, 43881), (43888, 44002),
    (44016, 44025), (44032, 55203), (55216, 55238), (55243, 55291), (63744, 64109),
    (64112, 64217), (64256, 64262), (64275, 64279), (64285, 64285), (64287, 64296),
    (64298, 64310), (64312, 64316), (64318, 64318), (64320, 64321), (64323, 64324),
    (64326, 64433), (64467, 64829), (64848, 64911), (64914, 64967), (65008, 65019),
    (65136, 65140), (65142, 65276), (65296, 65305), (65313, 65338), (65345, 65370),
    (65382, 65470), (65474, 65479), (65482, 65487), (65490, 65495), (65498, 65500),
    (65536, 65547), (65549, 65574), (65576, 65594), (65596, 65597), (65599, 65613),
    (65616, 65629), (65664, 65786), (65799, 65843), (65856, 65912), (65930, 65931),
    (66176, 66204), (66208, 66256), (66273, 66299), (66304, 66339), (66349, 66378),
    (66384, 66421), (66432, 66461), (66464, 66499), (66504, 66511), (66513, 66517),
    (66560, 66717), (66720, 66729), (66736, 66771), (66776, 66811), (66816, 66855),
    (66864, 66915), (66928, 66938), (66940, 66954), (66956, 66962), (66964, 66965),
    (66967, 66977), (66979, 66993), (66995, 67001), (67003, 67004), (67072, 67382),
    (67392, 67413), (67424, 67431), (67456, 67461), (67463, 67504), (67506, 67514),
    (67584, 67589), (67592, 67592), (67594, 67637), (67639, 67640), (67644, 67644),
    (67647, 67669), (67672, 67702), (67705, 67742), (67751, 67759), (67808, 67826),
    (67828, 67829), (67835, 67867), (67872, 67897), (67968, 68023), (68028, 68047),
    (68050, 68096), (68112, 68115), (68117, 68119), (68121, 68149), (68160, 68168),
    (68192, 68222), (68224, 68255), (68288, 68295), (68297, 68324), (68331, 68335),
    (68352, 68405), (68416, 68437), (68440, 68466), (68472, 68497), (68521, 68527),
    (68608, 68680), (68736, 68786), (68800, 68850), (68858, 68899), (68912, 68921),
    (69216, 69246), (69248, 69289), (69296, 69297), (69376, 69415), (69424, 69445),
    (69457, 69460), (69488, 69505), (69552, 69579), (69600, 69622), (69635, 69687),
    (69714, 69743), (69745, 69746), (69749, 69749), (69763, 69807), (69840, 69864),
    (69872, 69881), (69891, 69926), (69942, 69951), (69956, 69956), (69959, 69959),
    (69968, 70002), (70006, 70006), (70019, 70066), (70081, 70084), (70096, 70106),
    (70108, 70108), (70113, 70132), (70144, 70161), (70163, 70187), (70272, 70278),
    (70280, 70280), (70282, 70285), (70287, 70301), (70303, 70312), (70320, 70366),
    (70384, 70393), (70405, 70412), (70415, 70416), (70419, 70440), (70442, 70448),
    (70450, 70451), (70453, 70457), (70461, 70461), (70480, 70480), (70493, 70497),
    (70656, 70708), (70727, 70730), (70736, 70745), (70751, 70753), (70784, 70831),
    (70852, 70853), (70855, 70855), (70864, 70873), (71040, 71086), (71128, 71131),
    (71168, 71215), (71236, 71236), (71248, 71257), (71296, 71338), (71352, 71352),
    (71360, 71369), (71424, 71450), (71472, 71483), (71488, 71494), (71680, 71723),
    (71840, 71922), (71935, 71942), (71945, 71945), (71948, 71955), (71957, 71958),
    (71960, 71983), (71999, 71999), (72001, 72001), (72016, 72025), (72096, 72103),
    (72106, 72144), (72161, 72161), (72163, 72163), (72192, 72192), (72203, 72242),
    (72250, 72250), (72272, 72272), (72284, 72329), (72349, 72349), (72368, 72440),
    (72704, 72712), (72714, 72750), (72768, 72768), (72784, 72812), (72818, 72847),
    (72960, 72966), (72968, 72969), (72971, 73008), (73030, 73030), (73040, 73049),
    (73056, 73061), (73063, 73064), (73066, 73097), (73112, 73112), (73120, 73129),
    (73440, 73458), (73648, 73648), (73664, 73684), (73728, 74649), (74752, 74862),
    (74880, 75075), (77712, 77808), (77824, 78894), (82944, 83526), (92160, 92728),
    (92736, 92766), (92768, 92777), (92784, 92862), (92864, 92873), (92880, 92909),
    (92928, 92975), (92992, 92995), (93008, 93017), (93019, 93025), (93027, 93047),
    (93053, 93071), (93760, 93846), (93952, 94026), (94032, 94032), (94099, 94111),
    (94176, 94177), (94179, 94179), (94208, 100343), (100352, 101589), (101632, 101640),
    (110576, 110579), (110581, 110587), (110589, 110590), (110592, 110882), (110928, 110930),
    (110948, 110951), (110960, 111355), (113664, 113770), (113776, 113788), (113792, 113800),
    (113808, 113817), (119520, 119539), (119648, 119672), (119808, 119892), (119894, 119964),
    (119966, 119967), (119970, 119970), (119973, 119974), (119977, 119980), (119982, 119993),
    (119995, 119995), (119997, 120003), (120005, 120069), (120071, 120074), (120077, 120084),
    (120086, 120092), (120094, 120121), (120123, 120126), (120128, 120132), (120134, 120134),
    (120138, 120144), (120146, 120485), (120488, 120512), (120514, 120538), (120540, 120570),
    (120572, 120596), (120598, 120628), (120630, 120654), (120656, 120686), (120688, 120712),
    (120714, 120744), (120746, 120770), (120772, 120779), (120782, 120831), (122624, 122654),
    (123136, 123180), (123191, 123197), (123200, 123209), (123214, 123214), (123536, 123565),
    (123584, 123627), (123632, 123641), (124896, 124902), (124904, 124907), (124909, 124910),
    (124912, 124926), (124928, 125124), (125127, 125135), (125184, 125251), (125259, 125259),
    (125264, 125273), (126065, 126123), (126125, 126127), (126129, 126132), (126209, 126253),
    (126255, 126269), (126464, 126467), (126469, 126495), (126497, 126498), (126500, 126500),
    (126503, 126503), (126505, 126514), (126516, 126519), (126521, 126521), (126523, 126523),
    (126530, 126530), (126535, 126535), (126537, 126537), (126539, 126539), (126541, 126543),
    (126545, 126546), (126548, 126548), (126551, 126551), (126553, 126553), (126555, 126555),
    (126557, 126557), (126559, 126559), (126561, 126562), (126564, 126564), (126567, 126570),
    (126572, 126578), (126580, 126583), (126585, 126588), (126590, 126590), (126592, 126601),
    (126603, 126619), (126625, 126627), (126629, 126633), (126635, 126651), (127232, 127244),
    (130032, 130041), (131072, 173791), (173824, 177976), (177984, 178205), (178208, 183969),
    (183984, 191456), (194560, 195101), (196608, 201546)]"

definition in_range :: "codepoint \<Rightarrow> codepoint \<times> codepoint \<Rightarrow> bool" where
  "in_range c r = (fst r \<le> c \<and> c \<le> snd r)"

definition is_word :: "codepoint \<Rightarrow> bool" where
  "is_word c = (if c < 128 then ascii_word c else list_ex (in_range c) word_ranges)"

text \<open>
  \<open>re.sub(r'[^\w]', repl, s)\<close>: the pattern matches one character that is not a word
  character (a negated class also matches a newline), so every such character is replaced
  by \<open>repl\<close> and the others are kept.
\<close>

definition re_sub_nonword :: "pystr \<Rightarrow> pystr \<Rightarrow> pystr" where
  "re_sub_nonword repl s = concat (map (\<lambda>c. if is_word c then [c] else repl) s)"

section \<open>SheetSplitter: excel_to_csv.py\<close>

definition clean_filename :: "pystr \<Rightarrow> pystr" where
  "clean_filename filename =
     (let cleaned = py_replace (lit '' '') (lit ''_'') filename;
          cleaned = re_sub_nonword [] cleaned
      in cleaned)"

text \<open>
  A table (a pandas DataFrame read from a sheet or a delimited file): the column names and
  the data rows, every cell a string, a number or missing (NaN). The row index is not part
  of it: both scripts write with \<open>index=False\<close>.
\<close>

datatype cell = Str pystr | Num rat | Missing

record table =
  columns :: "pystr list"
  rows :: "cell list list"

definition fillna_cell :: "cell \<Rightarrow> cell \<Rightarrow> cell" where
  "fillna_cell v c = (case c of Missing \<Rightarrow> v | Str x \<Rightarrow> Str x | Num n \<Rightarrow> Num n)"

definition fillna :: "cell \<Rightarrow> table \<Rightarrow> table" where
  "fillna v df = df\<lparr>rows := map (map (fillna_cell v)) (rows df)\<rparr>"

text \<open>\<open>str(n)\<close> of a natural number: its decimal digits.\<close>

fun str_nat :: "nat \<Rightarrow> pystr" where
  "str_nat n = (if n < 10 then [48 + n] else str_nat (n div 10) @ [48 + n mod 10])"

declare str_nat.simps [simp del]

text \<open>\<open>os.path.join\<close> of two components (POSIX: the script's paths are absolute POSIX paths).\<close>

definition path_join :: "pystr \<Rightarrow> pystr \<Rightarrow> pystr" where
  "path_join a b =
     (if take 1 b = lit ''/'' then b
      else if a = [] \<or> last a = 47 then a @ b
      else a @ lit ''/'' @ b)"

text \<open>
  What the script reads from outside: an opened workbook (\<open>pd.ExcelFile\<close>) gives its sheet
  names in the workbook's order and, for a sheet name, the table \<open>pd.read_excel\<close> returns
  or the text \<open>str(e)\<close> of the exception it raises. The environment says which calls of
  the library fail, each with the text of its exception: creating the folder, opening the
  workbook, writing a table to a path, and printing a line on the standard output (a
  stream whose encoding does not have a character of the line raises) or on the standard
  error.
\<close>

record excel =
  sheet_names :: "pystr list"
  read_excel :: "pystr \<Rightarrow> pystr + table"

record os_env =
  makedirs_error :: "pystr \<Rightarrow> pystr option"
  ExcelFile :: "pystr \<Rightarrow> pystr + excel"
  to_csv_error :: "pystr \<Rightarrow> table \<Rightarrow> pystr option"
  stdout_error :: "pystr \<Rightarrow> pystr option"
  stderr_error :: "pystr \<Rightarrow> pystr option"

text \<open>
  The state the script changes: the directories and the delimited files that exist (a
  file holds the table handed to \<open>to_csv\<close>), and the lines the script has printed on the
  two streams (the traceback of an uncaught exception is not recorded).
\<close>

record fs =
  dirs :: "pystr set"
  files :: "pystr \<rightharpoonup> table"
  stdout :: "pystr list"
  stderr :: "pystr list"

definition path_exists :: "fs \<Rightarrow> pystr \<Rightarrow> bool" where
  "path_exists s p = (p \<in> dirs s \<or> p \<in> dom (files s))"

text \<open>
  \<open>os.makedirs\<close> creates the directory and every parent that is missing: the path itself
  and what stands before each of its later slashes.
\<close>

definition dir_prefixes :: "pystr \<Rightarrow> pystr list" where
  "dir_prefixes p = [take i p. i \<leftarrow> [1..<length p], p ! i = 47] @ [p]"

definition makedirs :: "os_env \<Rightarrow> pystr \<Rightarrow> fs \<Rightarrow> (pystr + unit) \<times> fs" where
  "makedirs env p s =
     (case makedirs_error env p of
        Some e \<Rightarrow> (Inl e, s)
      | None \<Rightarrow> (Inr (), s\<lparr>dirs := dirs s \<union> set (dir_prefixes p)\<rparr>))"

text \<open>The progress line of a sheet (line 40 of the script).\<close>

definition progress_line :: "pystr \<Rightarrow> pystr \<Rightarrow> pystr" where
  "progress_line sheet csv_file =
     lit ''Converted sheet '' @ [34] @ sheet @ [34] @ lit '' to '' @ csv_file"

text \<open>
  The loop over the sheets; an exception leaves it with what was written so far. The
  progress line is printed inside the \<open>try\<close>, after the file of the sheet is written.
\<close>

fun convert_sheets :: "os_env \<Rightarrow> excel \<Rightarrow> pystr \<Rightarrow> pystr list \<Rightarrow> fs \<Rightarrow> (pystr + unit) \<times> fs" where
  "convert_sheets env excel output_folder [] s = (Inr (), s)"
| "convert_sheets env excel output_folder (sheet # rest) s =
     (case read_excel excel sheet of
        Inl e \<Rightarrow> (Inl e, s)
      | Inr df \<Rightarrow>
          (let df = fillna (Str []) df;
               safe_sheet_name = clean_filename sheet;
               csv_file = path_join output_folder (safe_sheet_name @ lit ''.csv'')
           in case to_csv_error env csv_file df of
                Some e \<Rightarrow> (Inl e, s)
              | None \<Rightarrow>
                  (case stdout_error env (progress_line sheet csv_file) of
                     Some e \<Rightarrow> (Inl e, s\<lparr>files := (files s)(csv_file \<mapsto> df)\<rparr>)
                   | None \<Rightarrow>
                       convert_sheets env excel output_folder rest
                         (s\<lparr>files := (files s)(csv_file \<mapsto> df),
                            stdout := stdout s @ [progress_line sheet csv_file]\<rparr>))))"

text \<open>The body of the \<open>try\<close>: the message it returns, or the text of the exception raised.\<close>

definition try_body :: "os_env \<Rightarrow> pystr \<Rightarrow> pystr \<Rightarrow> fs \<Rightarrow> (pystr + pystr) \<times> fs" where
  "try_body env excel_file output_folder s =
     (case (if path_exists s output_folder then (Inr (), s) else makedirs env output_folder s) of
        (Inl e, s1) \<Rightarrow> (Inl e, s1)
      | (Inr _, s1) \<Rightarrow>
          (case ExcelFile env excel_file of
             Inl e \<Rightarrow> (Inl e, s1)
           | Inr excel \<Rightarrow>
               (case convert_sheets env excel output_folder (sheet_names excel) s1 of
                  (Inl e, s2) \<Rightarrow> (Inl e, s2)
                | (Inr _, s2) \<Rightarrow>
                    (Inr (lit ''Successfully converted '' @ str_nat (length (sheet_names excel))
                          @ lit '' sheets to CSV''), s2))))"

definition convert_excel_to_csv :: "os_env \<Rightarrow> pystr \<Rightarrow> pystr \<Rightarrow> fs \<Rightarrow> (bool \<times> pystr) \<times> fs" where
  "convert_excel_to_csv env excel_file output_folder s =
     (case try_body env excel_file output_folder s of
        (Inr message, s') \<Rightarrow> ((True, message), s')
      | (Inl e, s') \<Rightarrow> ((False, lit ''Error converting Excel to CSV: '' @ e), s'))"

text \<open>
  The entry point: the exit status of the process and the final state. The two prints of
  the entry point are outside the \<open>try\<close>: an exception of theirs reaches the top level and
  the process exits with status 1.
\<close>

definition main_excel_file :: pystr where
  "main_excel_file = lit ''/Users/ig-macbookpro/Downloads/GameData.xlsx''"

definition main_output_folder :: pystr where
  "main_output_folder =
     lit ''/Users/ig-macbookpro/Documents/Personal/Starkiller/Starkiller Base Command/Assets/_Temp/CSV''"

definition excel_to_csv_main :: "os_env \<Rightarrow> fs \<Rightarrow> nat \<times> fs" where
  "excel_to_csv_main env s =
     (let excel_file = main_excel_file;
          output_folder = main_output_folder
      in case convert_excel_to_csv env excel_file output_folder s of
           ((success, message), s') \<Rightarrow>
             if success then
               (case stdout_error env message of
                  Some e \<Rightarrow> (1, s')
                | None \<Rightarrow> (0, s'\<lparr>stdout := stdout s' @ [message]\<rparr>))
             else
               (case stderr_error env message of
                  Some e \<Rightarrow> (1, s')
                | None \<Rightarrow> (1, s'\<lparr>stderr := stderr s' @ [message]\<rparr>)))"

text \<open>
  A workbook to run the script on: the sheets "A B" and "A_B" have the same sanitized
  name, the sheet "---" has an empty one, and the second sheet has missing cells. Every
  call of the library succeeds on it.
\<close>

definition ex_crew :: table where
  "ex_crew = \<lparr>columns = [lit ''Name''], rows = [[Str (lit ''Vader'')]]\<rparr>"

definition ex_ships :: table where
  "ex_ships = \<lparr>columns = [lit ''Name'', lit ''Hull''],
               rows = [[Str (lit ''Falcon''), Missing], [Missing, Num 3]]\<rparr>"

definition ex_notes :: table where
  "ex_notes = \<lparr>columns = [lit ''Note''], rows = []\<rparr>"

definition ex_workbook :: excel where
  "ex_workbook =
     \<lparr>sheet_names = [lit ''A B'', lit ''A_B'', lit ''---''],
      read_excel = (\<lambda>sheet.
        if sheet = lit ''A B'' then Inr ex_crew
        else if sheet = lit ''A_B'' then Inr ex_ships
        else if sheet = lit ''---'' then Inr ex_notes
        else Inl (lit ''Worksheet not found''))\<rparr>"

definition ex_os :: os_env where
  "ex_os = \<lparr>makedirs_error = (\<lambda>p. None), ExcelFile = (\<lambda>p. Inr ex_workbook),
            to_csv_error = (\<lambda>p df. None), stdout_error = (\<lambda>line. None),
            stderr_error = (\<lambda>line. None)\<rparr>"

definition ex_fs :: fs where
  "ex_fs = \<lparr>dirs = {}, files = Map.empty, stdout = [], stderr = []\<rparr>"

section \<open>CatalogMerger: convert_to_excel.py\<close>

text \<open>
  The exceptions of a run: \<open>KeyError\<close> of \<open>groupby\<close> on a column the table does not have,
  \<open>AttributeError\<close> of \<open>category.replace\<close> on a category that is not a string, and the
  exceptions the library raises for reasons outside the script (reading the catalog,
  opening the writer, a sheet the engine refuses).
\<close>

datatype exn = KeyError pystr | AttributeError | LibraryError pystr

fun index_of :: "'a \<Rightarrow> 'a list \<Rightarrow> nat option" where
  "index_of x [] = None"
| "index_of x (y # ys) = (if y = x then Some 0 else map_option Suc (index_of x ys))"

text \<open>The cell of a row in a column; \<open>read_csv\<close> fills a short row with missing cells.\<close>

definition cell_at :: "nat \<Rightarrow> cell list \<Rightarrow> cell" where
  "cell_at i r = (if i < length r then r ! i else Missing)"

fun num_keys :: "cell list \<Rightarrow> rat list" where
  "num_keys [] = []"
| "num_keys (Num x # cs) = x # num_keys cs"
| "num_keys (c # cs) = num_keys cs"

fun str_keys :: "cell list \<Rightarrow> pystr list" where
  "str_keys [] = []"
| "str_keys (Str x # cs) = x # str_keys cs"
| "str_keys (c # cs) = str_keys cs"

text \<open>
  \<open>df.groupby(col)\<close>, iterated: with the defaults \<open>sort=True\<close> and \<open>dropna=True\<close> the groups
  come in ascending order of their keys, and the rows whose key is missing are in no
  group. The keys are the distinct values of the column (numbers before strings, should a
  column hold both); the table of a key has the rows with that key, in their order in
  \<open>df\<close>. \<open>reset_index(drop=True)\<close> only renumbers the row index, which the table does not
  carry. A column that is not there raises \<open>KeyError\<close>.
\<close>

definition groupby :: "table \<Rightarrow> pystr \<Rightarrow> exn + (cell \<times> table) list" where
  "groupby df col =
     (case index_of col (columns df) of
        None \<Rightarrow> Inl (KeyError col)
      | Some i \<Rightarrow>
          (let keys = map (cell_at i) (rows df);
               group_keys = map Num (sort (remdups (num_keys keys)))
                            @ map Str (sort (remdups (str_keys keys)))
           in Inr (map (\<lambda>k. (k, df\<lparr>rows := filter (\<lambda>r. cell_at i r = k) (rows df)\<rparr>))
                    group_keys)))"

definition intro_df :: "pystr \<Rightarrow> table" where
  "intro_df date =
     \<lparr>columns = [lit ''File Organization Strategy''],
      rows = map (\<lambda>line. [Str line])
        [[],
         lit ''When implementing new features or modifying existing functionality, refer to this catalog to understand which systems to modify.'',
         [],
         lit ''The catalog is organized by system categories:'',
         lit ''- Core System: Central game infrastructure components'',
         lit ''- Ship System: Ship generation and encounter handling'',
         lit ''- Family System: Imperial family management'',
         lit ''- Consequences System: Decision consequence tracking'',
         lit ''- Daily Game Flow: Daily game cycle management'',
         lit ''- Content Management: Media and game content'',
         lit ''- Visual Effects: Visual enhancement components'',
         [],
         lit ''This catalog was updated on '' @ date @ lit ''.'',
         lit ''It includes newly added scripts and recent modifications.'']\<rparr>"

text \<open>The sheet name of a category (lines 46 to 52 of the script).\<close>

definition derive_sheet_name :: "pystr \<Rightarrow> pystr" where
  "derive_sheet_name category =
     (let sheet_name = py_replace (lit ''System'') (lit ''System Files'') category;
          sheet_name = (if sheet_name = lit ''Core Files'' then lit ''Core System Files''
                        else sheet_name);
          sheet_name = (if sheet_name = lit ''Visual Effects'' then lit ''Visual Effects Files''
                        else sheet_name);
          sheet_name = (if sheet_name = lit ''Content Management''
                        then lit ''Content Management Files'' else sheet_name)
      in sheet_name)"

text \<open>
  The workbook of an \<open>ExcelWriter\<close> in write mode: its sheets in the order of their
  creation, each with its name and its cells, the header row (\<open>columns\<close>) and the rows
  below it. \<open>to_excel\<close> with a new name creates the sheet, last. With the name of an
  existing sheet it writes onto that sheet from its first cell: the cells of the new
  table replace the cells at their places, and the cells of the sheet beyond the new
  table stay.
\<close>

type_synonym workbook = "(pystr \<times> table) list"

definition overlay_row :: "'a list \<Rightarrow> 'a list \<Rightarrow> 'a list" where
  "overlay_row new old = new @ drop (length new) old"

fun overlay_rows :: "'a list list \<Rightarrow> 'a list list \<Rightarrow> 'a list list" where
  "overlay_rows [] old = old"
| "overlay_rows (n # ns) [] = n # ns"
| "overlay_rows (n # ns) (r # rs) = overlay_row n r # overlay_rows ns rs"

definition overlay :: "table \<Rightarrow> table \<Rightarrow> table" where
  "overlay new old =
     \<lparr>columns = overlay_row (columns new) (columns old),
      rows = overlay_rows (rows new) (rows old)\<rparr>"

fun to_excel :: "workbook \<Rightarrow> pystr \<Rightarrow> table \<Rightarrow> workbook" where
  "to_excel [] sheet_name df = [(sheet_name, df)]"
| "to_excel ((n, old) # wb) sheet_name df =
     (if n = sheet_name then (n, overlay df old) # wb
      else (n, old) # to_excel wb sheet_name df)"

text \<open>
  The environment of the script: its folder, the catalog \<open>read_csv\<close> returns, the date,
  and the calls of the library that raise. What a call of \<open>to_excel\<close> that raises has done
  to the workbook before is the engine's business (openpyxl has created an untitled sheet
  when it refuses a title), so the environment gives the workbook such a call leaves.
\<close>

record catalog_env =
  script_dir :: pystr
  read_csv :: "pystr \<Rightarrow> exn + table"
  today :: pystr
  ExcelWriter_error :: "pystr \<Rightarrow> exn option"
  to_excel_error :: "pystr \<Rightarrow> table \<Rightarrow> exn option"
  to_excel_failed :: "workbook \<Rightarrow> pystr \<Rightarrow> table \<Rightarrow> workbook"

record catalog_fs =
  xlsx :: "pystr \<rightharpoonup> workbook"
  console :: "pystr list"

text \<open>The loop over \<open>category_dfs.items()\<close>; an exception leaves it with the sheets so far.\<close>

fun write_categories ::
  "catalog_env \<Rightarrow> (cell \<times> table) list \<Rightarrow> workbook \<Rightarrow> (exn + unit) \<times> workbook" where
  "write_categories env [] writer = (Inr (), writer)"
| "write_categories env ((category, cat_df) # rest) writer =
     (case category of
        Str c \<Rightarrow>
          (let sheet_name = derive_sheet_name c
           in case to_excel_error env sheet_name cat_df of
                Some e \<Rightarrow> (Inl e, to_excel_failed env writer sheet_name cat_df)
              | None \<Rightarrow> write_categories env rest (to_excel writer sheet_name cat_df))
      | Num x \<Rightarrow> (Inl AttributeError, writer)
      | Missing \<Rightarrow> (Inl AttributeError, writer))"

definition catalog_csv_file :: "catalog_env \<Rightarrow> pystr" where
  "catalog_csv_file env = path_join (script_dir env) (lit ''file_catalog_updated.csv'')"

definition catalog_excel_file :: "catalog_env \<Rightarrow> pystr" where
  "catalog_excel_file env =
     path_join (script_dir env) (lit ''Starkiller Base Command - File Catalog Updated.xlsx'')"

text \<open>
  The script. The output file is opened when the writer is created and saved when the
  \<open>with\<close> block is left, also by an exception; before that the output path is not touched.
\<close>

definition convert_csv_to_excel :: "catalog_env \<Rightarrow> catalog_fs \<Rightarrow> (exn + unit) \<times> catalog_fs" where
  "convert_csv_to_excel env s =
     (let csv_file = catalog_csv_file env;
          excel_file = catalog_excel_file env
      in case read_csv env csv_file of
           Inl e \<Rightarrow> (Inl e, s)
         | Inr df \<Rightarrow>
             (case groupby df (lit ''Category'') of
                Inl e \<Rightarrow> (Inl e, s)
              | Inr category_dfs \<Rightarrow>
                  (case ExcelWriter_error env excel_file of
                     Some e \<Rightarrow> (Inl e, s)
                   | None \<Rightarrow>
                       (let writer = to_excel [] (lit ''Introduction'') (intro_df (today env))
                        in case write_categories env category_dfs writer of
                             (Inl e, writer) \<Rightarrow>
                               (Inl e, s\<lparr>xlsx := (xlsx s)(excel_file \<mapsto> writer)\<rparr>)
                           | (Inr u, writer) \<Rightarrow>
                               (Inr (), s\<lparr>xlsx := (xlsx s)(excel_file \<mapsto> writer),
                                          console := console s @
                                            [lit ''Excel file created at: '' @ excel_file]\<rparr>)))))"

text \<open>The exit status of the process: 1 when an exception reaches the top level.\<close>

definition convert_to_excel_main :: "catalog_env \<Rightarrow> catalog_fs \<Rightarrow> nat \<times> catalog_fs" where
  "convert_to_excel_main env s =
     (case convert_csv_to_excel env s of
        (Inl e, s') \<Rightarrow> (1, s')
      | (Inr u, s') \<Rightarrow> (0, s'))"

text \<open>What a workbook shows: the names of its sheets, and the rows of its category sheets.\<close>

definition sheet_titles :: "workbook \<Rightarrow> pystr list" where
  "sheet_titles wb = map fst wb"

definition category_sheets :: "workbook \<Rightarrow> workbook" where
  "category_sheets wb = filter (\<lambda>sh. fst sh \<noteq> lit ''Introduction'') wb"

definition sheet_rows :: "pystr \<times> table \<Rightarrow> cell list list" where
  "sheet_rows sh = rows (snd sh)"

text \<open>
  The order of claim C1, in the words of the specification: Introduction, then the sheets
  of the categories in the order in which the categories are first met in the rows.
\<close>

definition first_encountered :: "'a list \<Rightarrow> 'a list" where
  "first_encountered xs = rev (remdups (rev xs))"

definition spec_sheet_order :: "cell list \<Rightarrow> pystr list" where
  "spec_sheet_order categories =
     lit ''Introduction'' # map derive_sheet_name (first_encountered (str_keys categories))"

text \<open>
  Catalogs to run the script on, and an environment in which every call of the library
  succeeds. The first catalog has its categories out of order and a row without category;
  the second is the one of scenario 3; the third has no Category column.
\<close>

definition ex_catalog :: table where
  "ex_catalog =
     \<lparr>columns = [lit ''File'', lit ''Category''],
      rows = [[Str (lit ''ShipGenerator.cs''), Str (lit ''Ship System'')],
              [Str (lit ''GameManager.cs''), Str (lit ''Core System'')],
              [Str (lit ''Notes.txt''), Missing],
              [Str (lit ''ShipEncounter.cs''), Str (lit ''Ship System'')]]\<rparr>"

definition ex_scenario3 :: table where
  "ex_scenario3 =
     \<lparr>columns = [lit ''File'', lit ''Category''],
      rows = [[Str (lit ''GameManager.cs''), Str (lit ''Core System'')],
              [Str (lit ''ShipGenerator.cs''), Str (lit ''Ship System'')],
              [Str (lit ''Glow.cs''), Str (lit ''Visual Effects'')]]\<rparr>"

definition ex_no_category :: table where
  "ex_no_category =
     \<lparr>columns = [lit ''File'', lit ''Kind''],
      rows = [[Str (lit ''GameManager.cs''), Str (lit ''Core System'')]]\<rparr>"

definition ex_env :: "table \<Rightarrow> catalog_env" where
  "ex_env df =
     \<lparr>script_dir = lit ''/Assets'', read_csv = (\<lambda>p. Inr df), today = lit ''2025-01-31'',
      ExcelWriter_error = (\<lambda>p. None), to_excel_error = (\<lambda>n t. None),
      to_excel_failed = (\<lambda>wb n t. wb)\<rparr>"

definition ex_catalog_fs :: catalog_fs where
  "ex_catalog_fs = \<lparr>xlsx = Map.empty, console = []\<rparr>"

section \<open>Properties of the sanitization\<close>

lemma py_replace_char: "py_replace [a] [b] s = map (\<lambda>c. if c = a then b else c) s"
  by (induction s) auto

lemma re_sub_nonword_filter: "re_sub_nonword [] s = filter is_word s"
  by (induction s) (auto simp: re_sub_nonword_def)

lemma lit_space: "lit '' '' = [32]"
  by (simp add: lit_def)

lemma lit_underscore: "lit ''_'' = [95]"
  by (simp add: lit_def)

lemma clean_filename_eq:
  "clean_filename s = filter is_word (map (\<lambda>c. if c = 32 then 95 else c) s)"
  by (simp add: clean_filename_def lit_space lit_underscore py_replace_char
      re_sub_nonword_filter)

lemma space_not_word: "\<not> is_word 32"
  by (simp add: is_word_def ascii_word_def)


lemma e_acute_word: "is_word 233"
  by (simp add: is_word_def word_ranges_def in_range_def)

text \<open>
  Claim C6, as stated, at the accented letter U+00E9 (code point 233): the claim has it
  deleted, the code keeps it, since \<open>\w\<close> is Unicode aware.
\<close>

theorem clean_filename_keeps_accented_letter: "clean_filename [233] = [233]"
  by (simp add: clean_filename_eq e_acute_word)

text \<open>
  Claim C6, amended: the sanitization replaces every space (32) by an underscore (95) and
  then keeps exactly the word characters of \<open>\w\<close>, in order. A hyphen is not one and is
  deleted (sheet "NPC-List" gives the stem "NPCList"); an accented letter is one and is
  kept ("caf" followed by U+00E9 is unchanged).
\<close>

theorem clean_filename_strips_nonword:
  "clean_filename s = filter is_word (map (\<lambda>c. if c = 32 then 95 else c) s)
   \<and> clean_filename (lit ''NPC-List'') = lit ''NPCList''
   \<and> clean_filename (lit ''caf'' @ [233]) = lit ''caf'' @ [233]"
proof -
  have "clean_filename (lit ''NPC-List'') = lit ''NPCList''"
    by (simp add: clean_filename_eq lit_def is_word_def ascii_word_def)
  moreover have "clean_filename (lit ''caf'' @ [233]) = lit ''caf'' @ [233]"
    by (simp add: clean_filename_eq lit_def e_acute_word) (simp add: is_word_def ascii_word_def)
  ultimately show ?thesis
    using clean_filename_eq by blast
qed

text \<open>
  Claim C7: sanitizing an already sanitized name changes nothing.
\<close>

theorem clean_filename_idempotent: "clean_filename (clean_filename s) = clean_filename s"
proof -
  let ?f = "\<lambda>c::codepoint. if c = 32 then 95 else c"
  let ?t = "filter is_word (map ?f s)"
  have "\<forall>c \<in> set ?t. c \<noteq> 32"
    using space_not_word by auto
  then have "map ?f ?t = ?t"
    by (intro map_idI) auto
  then show ?thesis
    by (simp add: clean_filename_eq)
qed


section \<open>Properties of SheetSplitter\<close>

lemma convert_sheets_ok:
  "\<forall>sh\<in>set names. \<exists>df. read_excel excel sh = Inr df \<and>
      to_csv_error env (path_join out (clean_filename sh @ lit ''.csv'')) (fillna (Str []) df) = None \<and>
      stdout_error env
        (progress_line sh (path_join out (clean_filename sh @ lit ''.csv''))) = None
   \<Longrightarrow> fst (convert_sheets env excel out names s) = Inr ()"
proof (induction names arbitrary: s)
  case Nil
  then show ?case by simp
next
  case (Cons a names)
  then show ?case
    by (auto simp: Let_def split: sum.splits option.splits)
qed

lemma convert_sheets_raises:
  assumes "\<forall>sh\<in>set pre. \<exists>df. read_excel excel sh = Inr df \<and>
      to_csv_error env (path_join out (clean_filename sh @ lit ''.csv'')) (fillna (Str []) df) = None \<and>
      stdout_error env
        (progress_line sh (path_join out (clean_filename sh @ lit ''.csv''))) = None"
    and "read_excel excel sheet = Inl e \<or>
      (\<exists>df. read_excel excel sheet = Inr df \<and>
         (to_csv_error env (path_join out (clean_filename sheet @ lit ''.csv''))
            (fillna (Str []) df) = Some e \<or>
          to_csv_error env (path_join out (clean_filename sheet @ lit ''.csv''))
            (fillna (Str []) df) = None \<and>
          stdout_error env
            (progress_line sheet (path_join out (clean_filename sheet @ lit ''.csv''))) = Some e))"
  shows "fst (convert_sheets env excel out (pre @ sheet # post) s) = Inl e"
  using assms
proof (induction pre arbitrary: s)
  case Nil
  then show ?case
    by (auto simp: Let_def)
next
  case (Cons a pre)
  from Cons.prems(1) obtain dfa where a: "read_excel excel a = Inr dfa"
    "to_csv_error env (path_join out (clean_filename a @ lit ''.csv'')) (fillna (Str []) dfa) = None"
    "stdout_error env (progress_line a (path_join out (clean_filename a @ lit ''.csv''))) = None"
    by auto
  from Cons.prems(1) have rest: "\<forall>sh\<in>set pre. \<exists>df. read_excel excel sh = Inr df \<and>
      to_csv_error env (path_join out (clean_filename sh @ lit ''.csv'')) (fillna (Str []) df) = None \<and>
      stdout_error env
        (progress_line sh (path_join out (clean_filename sh @ lit ''.csv''))) = None"
    by simp
  show ?case
    using a Cons.IH[OF rest Cons.prems(2)] by (simp add: Let_def)
qed

lemma lit_slash: "lit ''/'' = [47]"
  by (simp add: lit_def)

lemma lit_csv: "lit ''.csv'' = [46, 99, 115, 118]"
  by (simp add: lit_def)

lemma slash_not_word: "\<not> is_word 47"
  by (simp add: is_word_def ascii_word_def)

lemma csv_name_no_slash: "take 1 (clean_filename u @ lit ''.csv'') \<noteq> lit ''/''"
proof (cases "clean_filename u")
  case Nil
  then show ?thesis by (simp add: lit_csv lit_slash)
next
  case (Cons c cs)
  then have "c \<in> set (clean_filename u)" by simp
  then have "is_word c" by (simp add: clean_filename_eq)
  with slash_not_word have "c \<noteq> 47" by auto
  with Cons show ?thesis by (simp add: lit_slash)
qed

lemma path_join_csv:
  "path_join out (clean_filename u @ lit ''.csv'') =
     (if out = [] \<or> last out = 47 then out else out @ lit ''/'') @ clean_filename u @ lit ''.csv''"
  using csv_name_no_slash[of u] by (simp add: path_join_def)

lemma csv_path_inj:
  "path_join out (clean_filename u @ lit ''.csv'') = path_join out (clean_filename v @ lit ''.csv'')
   \<Longrightarrow> clean_filename u = clean_filename v"
  by (simp add: path_join_csv)

lemma convert_sheets_other_path:
  "\<forall>c\<in>set names. path_join out (clean_filename c @ lit ''.csv'') \<noteq> p \<Longrightarrow>
   files (snd (convert_sheets env excel out names s)) p = files s p"
proof (induction names arbitrary: s)
  case Nil
  then show ?case by simp
next
  case (Cons a names)
  then show ?case
    by (auto simp: Let_def split: sum.splits option.splits)
qed

lemma convert_sheets_last_write:
  assumes "\<forall>sh\<in>set (pre @ b # post). \<exists>df. read_excel excel sh = Inr df \<and>
      to_csv_error env (path_join out (clean_filename sh @ lit ''.csv'')) (fillna (Str []) df) = None \<and>
      stdout_error env
        (progress_line sh (path_join out (clean_filename sh @ lit ''.csv''))) = None"
    and "\<forall>c\<in>set post. clean_filename c \<noteq> clean_filename b"
    and "read_excel excel b = Inr df"
  shows "files (snd (convert_sheets env excel out (pre @ b # post) s))
           (path_join out (clean_filename b @ lit ''.csv'')) = Some (fillna (Str []) df)"
  using assms
proof (induction pre arbitrary: s)
  case Nil
  let ?p = "path_join out (clean_filename b @ lit ''.csv'')"
  from Nil.prems(2) have other: "\<forall>c\<in>set post. path_join out (clean_filename c @ lit ''.csv'') \<noteq> ?p"
    using csv_path_inj by blast
  from Nil.prems(1,3) have "to_csv_error env ?p (fillna (Str []) df) = None"
    "stdout_error env (progress_line b ?p) = None" by auto
  with Nil.prems(3) show ?case
    by (simp add: Let_def convert_sheets_other_path[OF other])
next
  case (Cons a pre)
  from Cons.prems(1) obtain dfa where a: "read_excel excel a = Inr dfa"
    "to_csv_error env (path_join out (clean_filename a @ lit ''.csv'')) (fillna (Str []) dfa) = None"
    "stdout_error env (progress_line a (path_join out (clean_filename a @ lit ''.csv''))) = None"
    by auto
  from Cons.prems(1) have rest: "\<forall>sh\<in>set (pre @ b # post). \<exists>df. read_excel excel sh = Inr df \<and>
      to_csv_error env (path_join out (clean_filename sh @ lit ''.csv'')) (fillna (Str []) df) = None \<and>
      stdout_error env
        (progress_line sh (path_join out (clean_filename sh @ lit ''.csv''))) = None"
    by simp
  show ?case
    using a Cons.IH[OF rest Cons.prems(2,3)] by (simp add: Let_def)
qed

lemma mkdir_step:
  "path_exists s out \<or> makedirs_error env out = None \<Longrightarrow>
   \<exists>s1. files s1 = files s \<and>
     (if path_exists s out then (Inr (), s) else makedirs env out s) = (Inr (), s1)"
  by (cases "path_exists s out") (auto simp: makedirs_def)

lemma try_body_makedirs_fails:
  "\<not> path_exists s out \<Longrightarrow> makedirs_error env out = Some e \<Longrightarrow>
   fst (try_body env x out s) = Inl e"
  by (simp add: try_body_def makedirs_def)

lemma try_body_open_fails:
  assumes "path_exists s out \<or> makedirs_error env out = None" and "ExcelFile env x = Inl e"
  shows "fst (try_body env x out s) = Inl e"
proof -
  from mkdir_step[OF assms(1)] obtain s1 where
    "(if path_exists s out then (Inr (), s) else makedirs env out s) = (Inr (), s1)" by blast
  with assms(2) show ?thesis by (simp add: try_body_def)
qed

lemma try_body_sheets:
  assumes "path_exists s out \<or> makedirs_error env out = None" and "ExcelFile env x = Inr excel"
  shows "\<exists>s1. files s1 = files s \<and>
     try_body env x out s =
       (case convert_sheets env excel out (sheet_names excel) s1 of
          (Inl e, s2) \<Rightarrow> (Inl e, s2)
        | (Inr u, s2) \<Rightarrow>
            (Inr (lit ''Successfully converted '' @ str_nat (length (sheet_names excel))
                  @ lit '' sheets to CSV''), s2))"
proof -
  from mkdir_step[OF assms(1)] obtain s1 where "files s1 = files s"
    "(if path_exists s out then (Inr (), s) else makedirs env out s) = (Inr (), s1)" by blast
  with assms(2) show ?thesis by (auto simp: try_body_def)
qed

lemma try_body_shape:
  "(\<exists>excel. ExcelFile env x = Inr excel \<and>
      fst (try_body env x out s) =
        Inr (lit ''Successfully converted '' @ str_nat (length (sheet_names excel)) @ lit '' sheets to CSV''))
   \<or> (\<exists>e. fst (try_body env x out s) = Inl e)"
proof (cases "fst (try_body env x out s)")
  case (Inl e)
  then show ?thesis by blast
next
  case (Inr m)
  then show ?thesis
    by (auto simp: try_body_def split: prod.splits sum.splits if_splits)
qed

lemma convert_fst:
  "fst (convert_excel_to_csv env x out s) =
      (case fst (try_body env x out s) of
         Inr message \<Rightarrow> (True, message)
       | Inl e \<Rightarrow> (False, lit ''Error converting Excel to CSV: '' @ e))"
  by (auto simp: convert_excel_to_csv_def split: prod.splits sum.splits)

lemma convert_excel_to_csv_snd: "snd (convert_excel_to_csv env x out s) = snd (try_body env x out s)"
  by (auto simp: convert_excel_to_csv_def split: prod.splits sum.splits)

lemma convert_raises:
  assumes "path_exists s out \<or> makedirs_error env out = None" and "ExcelFile env x = Inr excel"
    and "sheet_names excel = pre @ sheet # post"
    and "\<forall>sh\<in>set pre. \<exists>df. read_excel excel sh = Inr df \<and>
      to_csv_error env (path_join out (clean_filename sh @ lit ''.csv'')) (fillna (Str []) df) = None \<and>
      stdout_error env
        (progress_line sh (path_join out (clean_filename sh @ lit ''.csv''))) = None"
    and "read_excel excel sheet = Inl e \<or>
      (\<exists>df. read_excel excel sheet = Inr df \<and>
         (to_csv_error env (path_join out (clean_filename sheet @ lit ''.csv''))
            (fillna (Str []) df) = Some e \<or>
          to_csv_error env (path_join out (clean_filename sheet @ lit ''.csv''))
            (fillna (Str []) df) = None \<and>
          stdout_error env
            (progress_line sheet (path_join out (clean_filename sheet @ lit ''.csv''))) = Some e))"
  shows "fst (convert_excel_to_csv env x out s) = (False, lit ''Error converting Excel to CSV: '' @ e)"
proof -
  from try_body_sheets[OF assms(1,2)] obtain s1 where tb:
    "try_body env x out s =
       (case convert_sheets env excel out (sheet_names excel) s1 of
          (Inl e, s2) \<Rightarrow> (Inl e, s2)
        | (Inr u, s2) \<Rightarrow>
            (Inr (lit ''Successfully converted '' @ str_nat (length (sheet_names excel))
                  @ lit '' sheets to CSV''), s2))" by blast
  have "fst (convert_sheets env excel out (pre @ sheet # post) s1) = Inl e"
    using assms(4,5) by (rule convert_sheets_raises)
  then have "fst (try_body env x out s) = Inl e"
    unfolding tb assms(3) by (auto split: prod.splits)
  then show ?thesis by (simp add: convert_fst)
qed

lemma convert_excel_to_csv_ok:
  assumes "path_exists s out \<or> makedirs_error env out = None"
    and "ExcelFile env x = Inr excel"
    and "\<forall>sh\<in>set (sheet_names excel). \<exists>df. read_excel excel sh = Inr df \<and>
      to_csv_error env (path_join out (clean_filename sh @ lit ''.csv'')) (fillna (Str []) df) = None \<and>
      stdout_error env
        (progress_line sh (path_join out (clean_filename sh @ lit ''.csv''))) = None"
  shows "\<exists>s1. files s1 = files s \<and>
      convert_excel_to_csv env x out s =
        ((True, lit ''Successfully converted '' @ str_nat (length (sheet_names excel)) @ lit '' sheets to CSV''),
         snd (convert_sheets env excel out (sheet_names excel) s1))"
proof -
  from try_body_sheets[OF assms(1,2)] obtain s1 where s1: "files s1 = files s" and tb:
    "try_body env x out s =
       (case convert_sheets env excel out (sheet_names excel) s1 of
          (Inl e, s2) \<Rightarrow> (Inl e, s2)
        | (Inr u, s2) \<Rightarrow>
            (Inr (lit ''Successfully converted '' @ str_nat (length (sheet_names excel))
                  @ lit '' sheets to CSV''), s2))" by blast
  have "fst (convert_sheets env excel out (sheet_names excel) s1) = Inr ()"
    using convert_sheets_ok[OF assms(3)] .
  then obtain s2 where "convert_sheets env excel out (sheet_names excel) s1 = (Inr (), s2)"
    by (cases "convert_sheets env excel out (sheet_names excel) s1") auto
  with s1 tb show ?thesis
    by (auto simp: convert_excel_to_csv_def)
qed

lemma convert_sheets_files:
  "files (snd (convert_sheets env excel out names s)) p = Some t \<Longrightarrow>
   files s p = Some t \<or>
   (\<exists>sheet df. sheet \<in> set names \<and> read_excel excel sheet = Inr df \<and> t = fillna (Str []) df
      \<and> p = path_join out (clean_filename sheet @ lit ''.csv''))"
proof (induction names arbitrary: s)
  case Nil
  then show ?case by simp
next
  case (Cons a names)
  show ?case
  proof (cases "read_excel excel a")
    case (Inl e)
    with Cons.prems show ?thesis by simp
  next
    case (Inr df)
    let ?df = "fillna (Str []) df"
    let ?p = "path_join out (clean_filename a @ lit ''.csv'')"
    show ?thesis
    proof (cases "to_csv_error env ?p ?df")
      case (Some e)
      with Inr Cons.prems show ?thesis by (simp add: Let_def)
    next
      case None
      show ?thesis
      proof (cases "stdout_error env (progress_line a ?p)")
        case (Some e)
        with None Inr Cons.prems have "((files s)(?p \<mapsto> ?df)) p = Some t"
          by (simp add: Let_def)
        then show ?thesis using Inr by (cases "p = ?p") auto
      next
        case printed: None
        let ?s = "s\<lparr>files := (files s)(?p \<mapsto> ?df),
                    stdout := stdout s @ [progress_line a ?p]\<rparr>"
        from printed None Inr Cons.prems
        have "files (snd (convert_sheets env excel out names ?s)) p = Some t"
          by (simp add: Let_def)
        from Cons.IH[OF this] show ?thesis
        proof
          assume "files ?s p = Some t"
          then show ?thesis using Inr by (cases "p = ?p") auto
        next
          assume "\<exists>sheet df. sheet \<in> set names \<and> read_excel excel sheet = Inr df \<and> t = fillna (Str []) df
            \<and> p = path_join out (clean_filename sheet @ lit ''.csv'')"
          then show ?thesis by auto
        qed
      qed
    qed
  qed
qed

lemma fillna_cell_not_missing: "fillna_cell (Str []) c \<noteq> Missing"
  by (cases c) (simp_all add: fillna_cell_def)

lemma fillna_no_missing: "Missing \<notin> set (concat (rows (fillna (Str []) df)))"
proof
  assume "Missing \<in> set (concat (rows (fillna (Str []) df)))"
  then obtain c where "Missing = fillna_cell (Str []) c"
    by (auto simp: fillna_def)
  then show False
    using fillna_cell_not_missing[of c] by simp
qed

lemma try_body_files:
  "files (snd (try_body env x out s)) p = Some t \<Longrightarrow>
   files s p = Some t \<or>
   (\<exists>excel sheet df. ExcelFile env x = Inr excel \<and> sheet \<in> set (sheet_names excel) \<and>
      read_excel excel sheet = Inr df \<and> t = fillna (Str []) df
      \<and> p = path_join out (clean_filename sheet @ lit ''.csv''))"
proof -
  assume h: "files (snd (try_body env x out s)) p = Some t"
  obtain r1 s1 where step1:
    "(if path_exists s out then (Inr (), s) else makedirs env out s) = (r1, s1)"
    by (cases "if path_exists s out then (Inr (), s) else makedirs env out s") auto
  then have f1: "files s1 = files s"
    by (auto simp: makedirs_def split: if_splits option.splits)
  show ?thesis
  proof (cases r1)
    case (Inl e)
    with step1 h f1 show ?thesis by (simp add: try_body_def)
  next
    case (Inr u)
    show ?thesis
    proof (cases "ExcelFile env x")
      case (Inl e)
      with Inr step1 h f1 show ?thesis by (simp add: try_body_def)
    next
      case excel: (Inr excel)
      from Inr step1 h excel
      have "files (snd (convert_sheets env excel out (sheet_names excel) s1)) p = Some t"
        by (auto simp: try_body_def split: prod.splits sum.splits)
      from convert_sheets_files[OF this] f1 excel show ?thesis by auto
    qed
  qed
qed

lemma main_success:
  assumes "fst (convert_excel_to_csv env main_excel_file main_output_folder s) = (True, m)"
    and "stdout_error env m = None"
  shows "excel_to_csv_main env s =
      (0, (snd (convert_excel_to_csv env main_excel_file main_output_folder s))
            \<lparr>stdout := stdout (snd (convert_excel_to_csv env main_excel_file main_output_folder s))
               @ [m]\<rparr>)"
  using assms
  by (cases "convert_excel_to_csv env main_excel_file main_output_folder s")
     (auto simp: excel_to_csv_main_def)

lemma main_failure:
  assumes "fst (convert_excel_to_csv env main_excel_file main_output_folder s) = (False, m)"
  shows "fst (excel_to_csv_main env s) = 1"
    and "stderr_error env m = None \<Longrightarrow> excel_to_csv_main env s =
      (1, (snd (convert_excel_to_csv env main_excel_file main_output_folder s))
            \<lparr>stderr := stderr (snd (convert_excel_to_csv env main_excel_file main_output_folder s))
               @ [m]\<rparr>)"
  using assms
  by (cases "convert_excel_to_csv env main_excel_file main_output_folder s";
      auto simp: excel_to_csv_main_def split: option.splits)+


lemma ex_clean:
  "clean_filename (lit ''A B'') = lit ''A_B''"
  "clean_filename (lit ''A_B'') = lit ''A_B''"
  "clean_filename (lit ''---'') = []"
  by (simp_all add: clean_filename_eq lit_def is_word_def ascii_word_def)

lemma ex_paths:
  "path_join (lit ''CSV'') (lit ''A_B'' @ lit ''.csv'') = lit ''CSV/A_B.csv''"
  "path_join (lit ''CSV'') (lit ''.csv'') = lit ''CSV/.csv''"
  by (simp_all add: path_join_def lit_def)

lemma ex_read:
  "read_excel ex_workbook (lit ''A B'') = Inr ex_crew"
  "read_excel ex_workbook (lit ''A_B'') = Inr ex_ships"
  "read_excel ex_workbook (lit ''---'') = Inr ex_notes"
  by (simp_all add: ex_workbook_def) (simp_all add: lit_def)

lemma ex_names: "sheet_names ex_workbook = [lit ''A B'', lit ''A_B'', lit ''---'']"
  by (simp add: ex_workbook_def)

lemma ex_os_simps:
  "makedirs_error ex_os = (\<lambda>p. None)" "ExcelFile ex_os = (\<lambda>p. Inr ex_workbook)"
  "to_csv_error ex_os = (\<lambda>p df. None)" "stdout_error ex_os = (\<lambda>line. None)"
  "stderr_error ex_os = (\<lambda>line. None)"
  by (simp_all add: ex_os_def)

lemma ex_all_ok:
  "\<forall>sh\<in>set (sheet_names ex_workbook). \<exists>df. read_excel ex_workbook sh = Inr df \<and>
      to_csv_error ex_os (path_join out (clean_filename sh @ lit ''.csv'')) (fillna (Str []) df) = None \<and>
      stdout_error ex_os
        (progress_line sh (path_join out (clean_filename sh @ lit ''.csv''))) = None"
  by (simp add: ex_workbook_def ex_os_def)

lemma ex_three: "str_nat (length (sheet_names ex_workbook)) = lit ''3''"
  by (simp add: ex_workbook_def str_nat.simps lit_def)

lemma ex_message:
  "lit ''Successfully converted '' @ lit ''3'' @ lit '' sheets to CSV''
     = lit ''Successfully converted 3 sheets to CSV''"
  by (simp add: lit_def)

lemma ex_run_files:
  "files (snd (convert_excel_to_csv ex_os x (lit ''CSV'') ex_fs)) =
     [lit ''CSV/A_B.csv'' \<mapsto> fillna (Str []) ex_ships, lit ''CSV/.csv'' \<mapsto> fillna (Str []) ex_notes]"
proof -
  have st: "files ex_fs = Map.empty" "path_exists ex_fs (lit ''CSV'') = False"
    by (simp_all add: ex_fs_def path_exists_def)
  show ?thesis
    by (simp add: convert_excel_to_csv_snd try_body_def makedirs_def st ex_os_simps ex_names Let_def
        ex_read ex_clean ex_paths)
qed

text \<open>
  Claim C3: \<open>convert_excel_to_csv\<close> returns a pair whatever the environment does, and the
  pair is decided by the first call that raises. The result is always either \<open>True\<close> with
  the message that reports the number of sheets of the workbook, or \<open>False\<close> with the
  error message. When the folder is missing and cannot be created, when the workbook
  cannot be opened, or when for some sheet (all sheets before it being converted) the
  reading, the writing of its file or the printing of its progress line raises, the result
  is \<open>False\<close> with the message that ends with the text of that exception. When no call
  raises, the result is \<open>True\<close> with the count. The entry point exits with status 0 after
  printing the message on the standard output when the result is \<open>True\<close> and the message
  can be printed; when the result is \<open>False\<close> it exits with status 1, having printed the
  message on the standard error when that can be printed.
\<close>

theorem convert_excel_to_csv_returns:
  "((\<exists>excel. ExcelFile env x = Inr excel \<and>
       fst (convert_excel_to_csv env x out s) =
         (True, lit ''Successfully converted '' @ str_nat (length (sheet_names excel))
                @ lit '' sheets to CSV''))
    \<or> (\<exists>e. fst (convert_excel_to_csv env x out s) =
              (False, lit ''Error converting Excel to CSV: '' @ e)))
   \<and> (\<not> path_exists s out \<and> makedirs_error env out = Some e \<longrightarrow>
        fst (convert_excel_to_csv env x out s) = (False, lit ''Error converting Excel to CSV: '' @ e))
   \<and> ((path_exists s out \<or> makedirs_error env out = None) \<and> ExcelFile env x = Inl e \<longrightarrow>
        fst (convert_excel_to_csv env x out s) = (False, lit ''Error converting Excel to CSV: '' @ e))
   \<and> ((path_exists s out \<or> makedirs_error env out = None) \<and> ExcelFile env x = Inr excel
        \<and> sheet_names excel = pre @ sheet # post
        \<and> (\<forall>sh\<in>set pre. \<exists>df. read_excel excel sh = Inr df \<and>
              to_csv_error env (path_join out (clean_filename sh @ lit ''.csv''))
                (fillna (Str []) df) = None \<and>
              stdout_error env
                (progress_line sh (path_join out (clean_filename sh @ lit ''.csv''))) = None)
        \<and> (read_excel excel sheet = Inl e \<or>
            (\<exists>df. read_excel excel sheet = Inr df \<and>
               (to_csv_error env (path_join out (clean_filename sheet @ lit ''.csv''))
                  (fillna (Str []) df) = Some e \<or>
                to_csv_error env (path_join out (clean_filename sheet @ lit ''.csv''))
                  (fillna (Str []) df) = None \<and>
                stdout_error env
                  (progress_line sheet (path_join out (clean_filename sheet @ lit ''.csv'')))
                  = Some e))) \<longrightarrow>
        fst (convert_excel_to_csv env x out s) = (False, lit ''Error converting Excel to CSV: '' @ e))
   \<and> ((path_exists s out \<or> makedirs_error env out = None) \<and> ExcelFile env x = Inr excel
        \<and> (\<forall>sh\<in>set (sheet_names excel). \<exists>df. read_excel excel sh = Inr df \<and>
              to_csv_error env (path_join out (clean_filename sh @ lit ''.csv''))
                (fillna (Str []) df) = None \<and>
              stdout_error env
                (progress_line sh (path_join out (clean_filename sh @ lit ''.csv''))) = None) \<longrightarrow>
        fst (convert_excel_to_csv env x out s) =
          (True, lit ''Successfully converted '' @ str_nat (length (sheet_names excel))
                 @ lit '' sheets to CSV''))
   \<and> (fst (convert_excel_to_csv env main_excel_file main_output_folder s) = (True, m)
        \<and> stdout_error env m = None \<longrightarrow>
        excel_to_csv_main env s =
          (0, (snd (convert_excel_to_csv env main_excel_file main_output_folder s))
                \<lparr>stdout := stdout (snd (convert_excel_to_csv env main_excel_file main_output_folder s))
                   @ [m]\<rparr>))
   \<and> (fst (convert_excel_to_csv env main_excel_file main_output_folder s) = (False, m) \<longrightarrow>
        fst (excel_to_csv_main env s) = 1)
   \<and> (fst (convert_excel_to_csv env main_excel_file main_output_folder s) = (False, m)
        \<and> stderr_error env m = None \<longrightarrow>
        excel_to_csv_main env s =
          (1, (snd (convert_excel_to_csv env main_excel_file main_output_folder s))
                \<lparr>stderr := stderr (snd (convert_excel_to_csv env main_excel_file main_output_folder s))
                   @ [m]\<rparr>))"
proof (intro conjI impI)
  from try_body_shape[of env x out s]
  show "(\<exists>excel. ExcelFile env x = Inr excel \<and>
       fst (convert_excel_to_csv env x out s) =
         (True, lit ''Successfully converted '' @ str_nat (length (sheet_names excel))
                @ lit '' sheets to CSV''))
    \<or> (\<exists>e. fst (convert_excel_to_csv env x out s) =
              (False, lit ''Error converting Excel to CSV: '' @ e))"
    by (auto simp: convert_fst)
next
  assume "\<not> path_exists s out \<and> makedirs_error env out = Some e"
  then show "fst (convert_excel_to_csv env x out s) = (False, lit ''Error converting Excel to CSV: '' @ e)"
    by (simp add: convert_fst try_body_makedirs_fails)
next
  assume "(path_exists s out \<or> makedirs_error env out = None) \<and> ExcelFile env x = Inl e"
  then show "fst (convert_excel_to_csv env x out s) = (False, lit ''Error converting Excel to CSV: '' @ e)"
    by (simp add: convert_fst try_body_open_fails)
next
  assume h: "(path_exists s out \<or> makedirs_error env out = None) \<and> ExcelFile env x = Inr excel
        \<and> sheet_names excel = pre @ sheet # post
        \<and> (\<forall>sh\<in>set pre. \<exists>df. read_excel excel sh = Inr df \<and>
              to_csv_error env (path_join out (clean_filename sh @ lit ''.csv''))
                (fillna (Str []) df) = None \<and>
              stdout_error env
                (progress_line sh (path_join out (clean_filename sh @ lit ''.csv''))) = None)
        \<and> (read_excel excel sheet = Inl e \<or>
            (\<exists>df. read_excel excel sheet = Inr df \<and>
               (to_csv_error env (path_join out (clean_filename sheet @ lit ''.csv''))
                  (fillna (Str []) df) = Some e \<or>
                to_csv_error env (path_join out (clean_filename sheet @ lit ''.csv''))
                  (fillna (Str []) df) = None \<and>
                stdout_error env
                  (progress_line sheet (path_join out (clean_filename sheet @ lit ''.csv'')))
                  = Some e)))"
  note a = h[THEN conjunct1]
    and b = h[THEN conjunct2, THEN conjunct1]
    and c = h[THEN conjunct2, THEN conjunct2, THEN conjunct1]
    and d = h[THEN conjunct2, THEN conjunct2, THEN conjunct2, THEN conjunct1]
    and r = h[THEN conjunct2, THEN conjunct2, THEN conjunct2, THEN conjunct2]
  show "fst (convert_excel_to_csv env x out s) = (False, lit ''Error converting Excel to CSV: '' @ e)"
    using a b c d r by (rule convert_raises)
next
  assume h: "(path_exists s out \<or> makedirs_error env out = None) \<and> ExcelFile env x = Inr excel
        \<and> (\<forall>sh\<in>set (sheet_names excel). \<exists>df. read_excel excel sh = Inr df \<and>
              to_csv_error env (path_join out (clean_filename sh @ lit ''.csv''))
                (fillna (Str []) df) = None \<and>
              stdout_error env
                (progress_line sh (path_join out (clean_filename sh @ lit ''.csv''))) = None)"
  note a = h[THEN conjunct1]
    and b = h[THEN conjunct2, THEN conjunct1]
    and c = h[THEN conjunct2, THEN conjunct2]
  from convert_excel_to_csv_ok[OF a b c]
  show "fst (convert_excel_to_csv env x out s) =
          (True, lit ''Successfully converted '' @ str_nat (length (sheet_names excel))
                 @ lit '' sheets to CSV'')"
    by auto
next
  assume "fst (convert_excel_to_csv env main_excel_file main_output_folder s) = (True, m)
        \<and> stdout_error env m = None"
  then show "excel_to_csv_main env s =
          (0, (snd (convert_excel_to_csv env main_excel_file main_output_folder s))
                \<lparr>stdout := stdout (snd (convert_excel_to_csv env main_excel_file main_output_folder s))
                   @ [m]\<rparr>)"
    using main_success by blast
next
  assume "fst (convert_excel_to_csv env main_excel_file main_output_folder s) = (False, m)"
  then show "fst (excel_to_csv_main env s) = 1"
    by (rule main_failure(1))
next
  assume "fst (convert_excel_to_csv env main_excel_file main_output_folder s) = (False, m)
        \<and> stderr_error env m = None"
  then show "excel_to_csv_main env s =
          (1, (snd (convert_excel_to_csv env main_excel_file main_output_folder s))
                \<lparr>stderr := stderr (snd (convert_excel_to_csv env main_excel_file main_output_folder s))
                   @ [m]\<rparr>)"
    using main_failure(2) by blast
qed

theorem convert_excel_to_csv_returns_witness:
  "fst (convert_excel_to_csv (ex_os\<lparr>makedirs_error := (\<lambda>p. Some (lit ''Permission denied''))\<rparr>)
          main_excel_file (lit ''CSV'') ex_fs)
     = (False, lit ''Error converting Excel to CSV: '' @ lit ''Permission denied'')
   \<and> fst (convert_excel_to_csv (ex_os\<lparr>ExcelFile := (\<lambda>p. Inl (lit ''No such file''))\<rparr>)
          main_excel_file (lit ''CSV'') ex_fs)
     = (False, lit ''Error converting Excel to CSV: '' @ lit ''No such file'')
   \<and> fst (convert_excel_to_csv (ex_os\<lparr>stdout_error := (\<lambda>line. Some (lit ''cannot encode''))\<rparr>)
          main_excel_file (lit ''CSV'') ex_fs)
     = (False, lit ''Error converting Excel to CSV: '' @ lit ''cannot encode'')
   \<and> fst (convert_excel_to_csv ex_os main_excel_file (lit ''CSV'') ex_fs)
     = (True, lit ''Successfully converted 3 sheets to CSV'')
   \<and> fst (excel_to_csv_main ex_os ex_fs) = 0
   \<and> last (stdout (snd (excel_to_csv_main ex_os ex_fs)))
     = lit ''Successfully converted 3 sheets to CSV''
   \<and> fst (excel_to_csv_main (ex_os\<lparr>ExcelFile := (\<lambda>p. Inl (lit ''No such file''))\<rparr>) ex_fs) = 1
   \<and> last (stderr (snd (excel_to_csv_main (ex_os\<lparr>ExcelFile := (\<lambda>p. Inl (lit ''No such file''))\<rparr>)
                           ex_fs)))
     = lit ''Error converting Excel to CSV: '' @ lit ''No such file''"
proof -
  let ?mk = "ex_os\<lparr>makedirs_error := (\<lambda>p. Some (lit ''Permission denied''))\<rparr>"
  let ?op = "ex_os\<lparr>ExcelFile := (\<lambda>p. Inl (lit ''No such file''))\<rparr>"
  let ?pr = "ex_os\<lparr>stdout_error := (\<lambda>line. Some (lit ''cannot encode''))\<rparr>"
  note all = convert_excel_to_csv_returns
  have absent: "\<not> path_exists ex_fs p" for p
    by (simp add: path_exists_def ex_fs_def)
  have w1: "fst (convert_excel_to_csv ?mk main_excel_file (lit ''CSV'') ex_fs)
     = (False, lit ''Error converting Excel to CSV: '' @ lit ''Permission denied'')"
    using all[where env="?mk" and s=ex_fs and out="lit ''CSV''" and x=main_excel_file
        and e="lit ''Permission denied''", THEN conjunct2, THEN conjunct1] absent
    by simp
  have w2: "fst (convert_excel_to_csv ?op main_excel_file out ex_fs)
     = (False, lit ''Error converting Excel to CSV: '' @ lit ''No such file'')" for out
    using all[where env="?op" and s=ex_fs and out=out and x=main_excel_file
        and e="lit ''No such file''", THEN conjunct2, THEN conjunct2, THEN conjunct1]
    by (simp add: ex_os_simps)
  have w3: "fst (convert_excel_to_csv ?pr main_excel_file (lit ''CSV'') ex_fs)
     = (False, lit ''Error converting Excel to CSV: '' @ lit ''cannot encode'')"
    using all[where env="?pr" and s=ex_fs and out="lit ''CSV''" and x=main_excel_file
        and e="lit ''cannot encode''" and excel=ex_workbook and pre="[]" and sheet="lit ''A B''"
        and post="[lit ''A_B'', lit ''---'']",
        THEN conjunct2, THEN conjunct2, THEN conjunct2, THEN conjunct1]
    by (simp add: ex_os_simps ex_names ex_read)
  have w4: "fst (convert_excel_to_csv ex_os main_excel_file out ex_fs)
     = (True, lit ''Successfully converted 3 sheets to CSV'')" for out
    using all[where env=ex_os and s=ex_fs and out=out and x=main_excel_file
        and excel=ex_workbook,
        THEN conjunct2, THEN conjunct2, THEN conjunct2, THEN conjunct2, THEN conjunct1]
      ex_all_ok[of out]
    by (simp add: ex_os_simps ex_three ex_message)
  have w5: "excel_to_csv_main ex_os ex_fs =
      (0, (snd (convert_excel_to_csv ex_os main_excel_file main_output_folder ex_fs))
            \<lparr>stdout := stdout (snd (convert_excel_to_csv ex_os main_excel_file main_output_folder ex_fs))
               @ [lit ''Successfully converted 3 sheets to CSV'']\<rparr>)"
    using all[where env=ex_os and s=ex_fs and m="lit ''Successfully converted 3 sheets to CSV''",
        THEN conjunct2, THEN conjunct2, THEN conjunct2, THEN conjunct2, THEN conjunct2,
        THEN conjunct1] w4[of main_output_folder]
    by (simp add: ex_os_simps)
  have w6: "excel_to_csv_main ?op ex_fs =
      (1, (snd (convert_excel_to_csv ?op main_excel_file main_output_folder ex_fs))
            \<lparr>stderr := stderr (snd (convert_excel_to_csv ?op main_excel_file main_output_folder ex_fs))
               @ [lit ''Error converting Excel to CSV: '' @ lit ''No such file'']\<rparr>)"
    using all[where env="?op" and s=ex_fs
        and m="lit ''Error converting Excel to CSV: '' @ lit ''No such file''",
        THEN conjunct2, THEN conjunct2, THEN conjunct2, THEN conjunct2, THEN conjunct2,
        THEN conjunct2, THEN conjunct2] w2[of main_output_folder]
    by (simp add: ex_os_simps)
  show ?thesis
    using w1 w2[of "lit ''CSV''"] w3 w4[of "lit ''CSV''"] w5 w6
    by simp
qed

text \<open>
  Claim C8: when no call of the library raises (creating the folder, opening the
  workbook, and for every sheet reading it, writing its file and printing its progress
  line) and two distinct sheets \<open>a\<close>, then \<open>b\<close>, of the workbook have the same sanitized
  name, with no later sheet of that name, the run succeeds, its message counts all the
  sheets, and the one file of that name holds the table of \<open>b\<close>, the later sheet.
\<close>

theorem later_sheet_overwrites:
  assumes "makedirs_error env out = None"
    and "ExcelFile env x = Inr excel"
    and "sheet_names excel = pre @ a # mid @ b # post"
    and "a \<noteq> b"
    and "clean_filename a = clean_filename b"
    and "\<forall>c\<in>set post. clean_filename c \<noteq> clean_filename b"
    and "\<forall>sh\<in>set (sheet_names excel). \<exists>df. read_excel excel sh = Inr df \<and>
      to_csv_error env (path_join out (clean_filename sh @ lit ''.csv'')) (fillna (Str []) df) = None \<and>
      stdout_error env
        (progress_line sh (path_join out (clean_filename sh @ lit ''.csv''))) = None"
    and "read_excel excel b = Inr df_b"
  shows "fst (convert_excel_to_csv env x out s) =
           (True, lit ''Successfully converted '' @ str_nat (length (sheet_names excel))
                  @ lit '' sheets to CSV'')
       \<and> files (snd (convert_excel_to_csv env x out s))
           (path_join out (clean_filename a @ lit ''.csv'')) = Some (fillna (Str []) df_b)"
proof -
  have dir: "path_exists s out \<or> makedirs_error env out = None"
    using assms(1) by simp
  from convert_excel_to_csv_ok[OF dir assms(2,7)] obtain s1 where s1:
    "convert_excel_to_csv env x out s =
        ((True, lit ''Successfully converted '' @ str_nat (length (sheet_names excel)) @ lit '' sheets to CSV''),
         snd (convert_sheets env excel out (sheet_names excel) s1))"
    by blast
  have names: "sheet_names excel = (pre @ a # mid) @ b # post"
    using assms(3) by simp
  have "files (snd (convert_sheets env excel out ((pre @ a # mid) @ b # post) s1))
           (path_join out (clean_filename b @ lit ''.csv'')) = Some (fillna (Str []) df_b)"
    using assms(7) assms(6) assms(8) unfolding names by (rule convert_sheets_last_write)
  with s1 names assms(5) show ?thesis by simp
qed

theorem later_sheet_overwrites_witness:
  "fst (convert_excel_to_csv ex_os main_excel_file (lit ''CSV'') ex_fs) =
     (True, lit ''Successfully converted 3 sheets to CSV'')
   \<and> files (snd (convert_excel_to_csv ex_os main_excel_file (lit ''CSV'') ex_fs))
       (lit ''CSV/A_B.csv'') = Some (fillna (Str []) ex_ships)
   \<and> fillna (Str []) ex_ships \<noteq> fillna (Str []) ex_crew"
proof -
  have ne: "lit ''A B'' \<noteq> lit ''A_B''"
    by (simp add: lit_def)
  have names: "sheet_names ex_workbook = [] @ lit ''A B'' # [] @ lit ''A_B'' # [lit ''---'']"
    by (simp add: ex_workbook_def)
  have later: "\<forall>c\<in>set [lit ''---'']. clean_filename c \<noteq> clean_filename (lit ''A_B'')"
    by (simp add: ex_clean) (simp add: lit_def)
  have diff: "fillna (Str []) ex_ships \<noteq> fillna (Str []) ex_crew"
    by (simp add: fillna_def ex_ships_def ex_crew_def)
  have "makedirs_error ex_os (lit ''CSV'') = None" "ExcelFile ex_os main_excel_file = Inr ex_workbook"
    by (simp_all add: ex_os_def)
  from later_sheet_overwrites[OF this names ne _ later ex_all_ok ex_read(2), of ex_fs]
  show ?thesis
    by (simp add: ex_clean ex_three ex_paths ex_message diff)
qed


text \<open>
  Claim C9: \<open>fillna('')\<close> turns a missing cell into the empty string, the value an empty
  string cell already has, and leaves every other cell alone. Every file the run writes
  (a path whose content after the run is not the one it had before) holds the table of a
  sheet after that replacement, and no cell of it is missing.
\<close>

theorem missing_cells_become_empty:
  assumes "files (snd (convert_excel_to_csv env x out s)) p = Some t"
    and "files s p \<noteq> Some t"
  shows "fillna_cell (Str []) Missing = Str [] \<and> fillna_cell (Str []) (Str []) = Str []
       \<and> (\<exists>excel sheet df. ExcelFile env x = Inr excel \<and> sheet \<in> set (sheet_names excel)
            \<and> read_excel excel sheet = Inr df
            \<and> p = path_join out (clean_filename sheet @ lit ''.csv'')
            \<and> columns t = columns df
            \<and> rows t = map (map (fillna_cell (Str []))) (rows df)
            \<and> Missing \<notin> set (concat (rows t)))"
proof -
  from assms(1) have "files (snd (try_body env x out s)) p = Some t"
    by (simp add: convert_excel_to_csv_snd)
  from try_body_files[OF this] assms(2)
  obtain excel sheet df where w: "ExcelFile env x = Inr excel" "sheet \<in> set (sheet_names excel)"
    "read_excel excel sheet = Inr df" "t = fillna (Str []) df"
    "p = path_join out (clean_filename sheet @ lit ''.csv'')"
    by blast
  have "columns t = columns df" "rows t = map (map (fillna_cell (Str []))) (rows df)"
    using w(4) by (simp_all add: fillna_def)
  moreover have "Missing \<notin> set (concat (rows t))"
    using w(4) fillna_no_missing by simp
  moreover have "fillna_cell (Str []) Missing = Str []" "fillna_cell (Str []) (Str []) = Str []"
    by (simp_all add: fillna_cell_def)
  ultimately show ?thesis using w(1,2,3,5) by blast
qed

theorem missing_cells_become_empty_witness:
  "files (snd (convert_excel_to_csv ex_os main_excel_file (lit ''CSV'') ex_fs)) (lit ''CSV/A_B.csv'')
     = Some \<lparr>columns = [lit ''Name'', lit ''Hull''],
             rows = [[Str (lit ''Falcon''), Str []], [Str [], Num 3]]\<rparr>
   \<and> (\<exists>excel sheet df. ExcelFile ex_os main_excel_file = Inr excel \<and> sheet \<in> set (sheet_names excel)
        \<and> read_excel excel sheet = Inr df
        \<and> lit ''CSV/A_B.csv'' = path_join (lit ''CSV'') (clean_filename sheet @ lit ''.csv'')
        \<and> columns (fillna (Str []) ex_ships) = columns df
        \<and> rows (fillna (Str []) ex_ships) = map (map (fillna_cell (Str []))) (rows df)
        \<and> Missing \<notin> set (concat (rows (fillna (Str []) ex_ships))))"
proof -
  have written: "files (snd (convert_excel_to_csv ex_os main_excel_file (lit ''CSV'') ex_fs))
      (lit ''CSV/A_B.csv'') = Some (fillna (Str []) ex_ships)"
    by (simp add: ex_run_files) (simp add: lit_def)
  have before: "files ex_fs (lit ''CSV/A_B.csv'') \<noteq> Some (fillna (Str []) ex_ships)"
    by (simp add: ex_fs_def)
  have val: "fillna (Str []) ex_ships = \<lparr>columns = [lit ''Name'', lit ''Hull''],
             rows = [[Str (lit ''Falcon''), Str []], [Str [], Num 3]]\<rparr>"
    by (simp add: fillna_def ex_ships_def fillna_cell_def)
  from missing_cells_become_empty[OF written before] written val
  show ?thesis by simp
qed



section \<open>Properties of CatalogMerger\<close>

lemma index_of_None: "index_of x xs = None \<longleftrightarrow> x \<notin> set xs"
  by (induction xs) auto

lemma to_excel_new:
  "n \<notin> set (map fst wb) \<Longrightarrow> to_excel wb n df = wb @ [(n, df)]"
  by (induction wb n df rule: to_excel.induct) auto

lemma write_categories_no_numbers:
  "fst (write_categories env (map (\<lambda>k. (k, g k)) (map Num ns @ ks)) wb) = Inr () \<Longrightarrow> ns = []"
  by (cases ns) auto

lemma write_categories_new_sheets:
  "write_categories env (map (\<lambda>c. (Str c, g (Str c))) cats) wb = (Inr (), wb') \<Longrightarrow>
   distinct (map fst wb @ map derive_sheet_name cats) \<Longrightarrow>
   wb' = wb @ map (\<lambda>c. (derive_sheet_name c, g (Str c))) cats"
proof (induction cats arbitrary: wb)
  case Nil
  then show ?case by simp
next
  case (Cons c cats)
  let ?n = "derive_sheet_name c"
  from Cons.prems(1) have ok: "to_excel_error env ?n (g (Str c)) = None"
    by (auto simp: Let_def split: option.splits)
  from Cons.prems(2) have new: "?n \<notin> set (map fst wb)"
    by auto
  have step: "to_excel wb ?n (g (Str c)) = wb @ [(?n, g (Str c))]"
    using new by (rule to_excel_new)
  from Cons.prems(1) ok step
  have run: "write_categories env (map (\<lambda>c. (Str c, g (Str c))) cats) (wb @ [(?n, g (Str c))])
      = (Inr (), wb')"
    by (simp add: Let_def)
  from Cons.prems(2) have "distinct (map fst (wb @ [(?n, g (Str c))]) @ map derive_sheet_name cats)"
    by auto
  from Cons.IH[OF run this] show ?case by simp
qed

lemma sorted_distinct_keys:
  "sorted cats \<Longrightarrow> distinct cats \<Longrightarrow> set cats = set ks \<Longrightarrow> sort (remdups ks) = cats"
  by (rule sorted_distinct_set_unique) simp_all

lemma convert_csv_to_excel_workbook:
  assumes rd: "read_csv env (catalog_csv_file env) = Inr df"
    and run: "convert_csv_to_excel env s = (Inr (), s')"
    and ix: "index_of (lit ''Category'') (columns df) = Some i"
    and cats: "sorted cats" "distinct cats" "set cats = set (str_keys (map (cell_at i) (rows df)))"
    and names: "distinct (lit ''Introduction'' # map derive_sheet_name cats)"
  shows "xlsx s' (catalog_excel_file env) =
           Some ((lit ''Introduction'', intro_df (today env))
                 # map (\<lambda>c. (derive_sheet_name c,
                               df\<lparr>rows := filter (\<lambda>r. cell_at i r = Str c) (rows df)\<rparr>)) cats)"
    and "num_keys (map (cell_at i) (rows df)) = []"
proof -
  let ?keys = "map (cell_at i) (rows df)"
  let ?g = "\<lambda>k. df\<lparr>rows := filter (\<lambda>r. cell_at i r = k) (rows df)\<rparr>"
  let ?ns = "sort (remdups (num_keys ?keys))"
  let ?w0 = "[(lit ''Introduction'', intro_df (today env))]"
  have cats_eq: "sort (remdups (str_keys ?keys)) = cats"
    using cats by (rule sorted_distinct_keys)
  have grp: "groupby df (lit ''Category'') =
      Inr (map (\<lambda>k. (k, ?g k)) (map Num ?ns @ map Str cats))"
    by (simp add: groupby_def ix Let_def cats_eq)
  from run rd grp obtain wb where
    wr: "write_categories env (map (\<lambda>k. (k, ?g k)) (map Num ?ns @ map Str cats)) ?w0 = (Inr (), wb)"
    and s': "xlsx s' (catalog_excel_file env) = Some wb"
    by (auto simp: convert_csv_to_excel_def Let_def split: option.splits prod.splits sum.splits)
  from wr have "?ns = []"
    using write_categories_no_numbers[of env ?g ?ns "map Str cats" ?w0] by simp
  then have "set ?ns = {}" by simp
  then show nums: "num_keys ?keys = []" by simp
  from wr \<open>?ns = []\<close>
  have "write_categories env (map (\<lambda>c. (Str c, ?g (Str c))) cats) ?w0 = (Inr (), wb)"
    by (simp add: comp_def)
  from write_categories_new_sheets[OF this] names
  have "wb = ?w0 @ map (\<lambda>c. (derive_sheet_name c, ?g (Str c))) cats"
    by simp
  with s' show "xlsx s' (catalog_excel_file env) =
           Some ((lit ''Introduction'', intro_df (today env))
                 # map (\<lambda>c. (derive_sheet_name c, ?g (Str c))) cats)"
    by simp
qed

lemma derive_examples:
  "derive_sheet_name (lit ''Core System'') = lit ''Core System Files''"
  "derive_sheet_name (lit ''Ship System'') = lit ''Ship System Files''"
  "derive_sheet_name (lit ''Visual Effects'') = lit ''Visual Effects Files''"
  by (simp_all add: derive_sheet_name_def lit_def)

lemma replace_examples:
  "py_replace (lit ''System'') (lit ''System Files'') (lit ''Core System'') = lit ''Core System Files''"
  "py_replace (lit ''System'') (lit ''System Files'') (lit ''Ship System'') = lit ''Ship System Files''"
  "py_replace (lit ''System'') (lit ''System Files'') (lit ''Visual Effects'') = lit ''Visual Effects''"
  by (simp_all add: lit_def)

lemma ex_catalog_keys:
  "index_of (lit ''Category'') (columns ex_catalog) = Some (Suc 0)"
  "map (cell_at (Suc 0)) (rows ex_catalog) =
     [Str (lit ''Ship System''), Str (lit ''Core System''), Missing, Str (lit ''Ship System'')]"
  by (simp_all add: ex_catalog_def cell_at_def) (simp add: lit_def)

lemma str_keys_set: "c \<in> set (str_keys cs) \<longleftrightarrow> Str c \<in> set cs"
  by (induction cs rule: str_keys.induct) auto

lemma num_keys_set: "x \<in> set (num_keys cs) \<longleftrightarrow> Num x \<in> set cs"
  by (induction cs rule: num_keys.induct) auto

lemma groups_mset:
  "distinct cats \<Longrightarrow>
   mset (concat (map (\<lambda>c. filter (\<lambda>r. f r = Str c) rs) cats))
     = mset (filter (\<lambda>r. \<exists>c\<in>set cats. f r = Str c) rs)"
proof (induction cats)
  case Nil
  then show ?case by simp
next
  case (Cons c cats)
  then have "mset (concat (map (\<lambda>c. filter (\<lambda>r. f r = Str c) rs) (c # cats)))
      = filter_mset (\<lambda>r. f r = Str c) (mset rs)
        + filter_mset (\<lambda>r. \<exists>c\<in>set cats. f r = Str c) (mset rs)"
    by simp
  also have "\<dots> = filter_mset (\<lambda>r. \<exists>c'\<in>set (c # cats). f r = Str c') (mset rs)"
    using Cons.prems by (intro multiset_eqI) auto
  finally show ?case by simp
qed

lemma groups_cover:
  assumes "set cats = set (str_keys (map f rs))" and "num_keys (map f rs) = []"
  shows "filter (\<lambda>r. \<exists>c\<in>set cats. f r = Str c) rs = filter (\<lambda>r. f r \<noteq> Missing) rs"
proof (rule filter_cong[OF refl])
  fix r assume r: "r \<in> set rs"
  show "(\<exists>c\<in>set cats. f r = Str c) = (f r \<noteq> Missing)"
  proof (cases "f r")
    case (Str c)
    with r have "Str c \<in> set (map f rs)" by force
    then have "c \<in> set cats" using assms(1) by (simp add: str_keys_set)
    with Str show ?thesis by simp
  next
    case (Num x)
    with r have "Num x \<in> set (map f rs)" by force
    then have "x \<in> set (num_keys (map f rs))" by (simp add: num_keys_set)
    with assms(2) show ?thesis by simp
  next
    case Missing
    then show ?thesis by simp
  qed
qed

lemma ex_env_simps:
  "read_csv (ex_env df) p = Inr df" "today (ex_env df) = lit ''2025-01-31''"
  "ExcelWriter_error (ex_env df) p = None" "to_excel_error (ex_env df) n t = None"
  by (simp_all add: ex_env_def)

lemma ex_names_distinct:
  "lit ''Introduction'' \<noteq> lit ''Core System Files''"
  "lit ''Introduction'' \<noteq> lit ''Ship System Files''"
  "lit ''Introduction'' \<noteq> lit ''Visual Effects Files''"
  "lit ''Core System Files'' \<noteq> lit ''Ship System Files''"
  "lit ''Core System Files'' \<noteq> lit ''Visual Effects Files''"
  "lit ''Ship System Files'' \<noteq> lit ''Visual Effects Files''"
  by (simp_all add: lit_def)

lemma ex_catalog_groups:
  "groupby ex_catalog (lit ''Category'') =
     Inr [(Str (lit ''Core System''),
           ex_catalog\<lparr>rows := [[Str (lit ''GameManager.cs''), Str (lit ''Core System'')]]\<rparr>),
          (Str (lit ''Ship System''),
           ex_catalog\<lparr>rows := [[Str (lit ''ShipGenerator.cs''), Str (lit ''Ship System'')],
                               [Str (lit ''ShipEncounter.cs''), Str (lit ''Ship System'')]]\<rparr>)]"
proof -
  have f: "filter (\<lambda>r. cell_at (Suc 0) r = Str (lit ''Core System'')) (rows ex_catalog)
      = [[Str (lit ''GameManager.cs''), Str (lit ''Core System'')]]"
    "filter (\<lambda>r. cell_at (Suc 0) r = Str (lit ''Ship System'')) (rows ex_catalog)
      = [[Str (lit ''ShipGenerator.cs''), Str (lit ''Ship System'')],
         [Str (lit ''ShipEncounter.cs''), Str (lit ''Ship System'')]]"
    by (simp_all add: ex_catalog_def cell_at_def) (simp_all add: lit_def)
  show ?thesis
    by (simp add: groupby_def ex_catalog_keys Let_def f) (simp add: lit_def)
qed

lemma ex_catalog_run:
  "fst (convert_csv_to_excel (ex_env ex_catalog) ex_catalog_fs) = Inr ()"
  "xlsx (snd (convert_csv_to_excel (ex_env ex_catalog) ex_catalog_fs))
        (catalog_excel_file (ex_env ex_catalog)) =
     Some [(lit ''Introduction'', intro_df (lit ''2025-01-31'')),
           (lit ''Core System Files'',
            ex_catalog\<lparr>rows := [[Str (lit ''GameManager.cs''), Str (lit ''Core System'')]]\<rparr>),
           (lit ''Ship System Files'',
            ex_catalog\<lparr>rows := [[Str (lit ''ShipGenerator.cs''), Str (lit ''Ship System'')],
                                [Str (lit ''ShipEncounter.cs''), Str (lit ''Ship System'')]]\<rparr>)]"
  by (simp_all add: convert_csv_to_excel_def Let_def ex_env_simps ex_catalog_groups
      derive_examples ex_names_distinct)

lemma run_pair: "fst r = Inr () \<Longrightarrow> r = (Inr (), snd r)"
  by (cases r) simp

lemma ex_catalog_cats:
  "sorted [lit ''Core System'', lit ''Ship System'']"
  "distinct [lit ''Core System'', lit ''Ship System'']"
  "set [lit ''Core System'', lit ''Ship System'']
     = set (str_keys (map (cell_at (Suc 0)) (rows ex_catalog)))"
  "distinct (lit ''Introduction'' # map derive_sheet_name [lit ''Core System'', lit ''Ship System''])"
proof -
  show "sorted [lit ''Core System'', lit ''Ship System'']"
    by (simp add: lit_def)
  show "distinct [lit ''Core System'', lit ''Ship System'']"
    by (simp add: lit_def)
  show "set [lit ''Core System'', lit ''Ship System'']
     = set (str_keys (map (cell_at (Suc 0)) (rows ex_catalog)))"
    by (auto simp: ex_catalog_keys)
  show "distinct (lit ''Introduction'' # map derive_sheet_name [lit ''Core System'', lit ''Ship System''])"
    by (simp add: derive_examples ex_names_distinct)
qed

text \<open>
  Claim C1, as stated, on a catalog whose rows meet "Ship System" before "Core System":
  the workbook has the sheet of "Core System" before the sheet of "Ship System", while the
  order of first encounter is the opposite one.
\<close>

theorem sheets_not_in_encounter_order:
  "map_option sheet_titles
     (xlsx (snd (convert_csv_to_excel (ex_env ex_catalog) ex_catalog_fs))
           (catalog_excel_file (ex_env ex_catalog)))
     = Some [lit ''Introduction'', lit ''Core System Files'', lit ''Ship System Files'']
   \<and> spec_sheet_order (map (cell_at 1) (rows ex_catalog))
     = [lit ''Introduction'', lit ''Ship System Files'', lit ''Core System Files'']
   \<and> [lit ''Introduction'', lit ''Core System Files'', lit ''Ship System Files'']
     \<noteq> [lit ''Introduction'', lit ''Ship System Files'', lit ''Core System Files'']"
proof -
  have "spec_sheet_order (map (cell_at 1) (rows ex_catalog))
     = [lit ''Introduction'', lit ''Ship System Files'', lit ''Core System Files'']"
    by (simp add: spec_sheet_order_def first_encountered_def ex_catalog_keys derive_examples)
       (simp add: lit_def)
  then show ?thesis
    by (simp add: ex_catalog_run sheet_titles_def ex_names_distinct)
qed

text \<open>
  Claim C1, amended: when the run completes, and the sheet names derived from the
  categories differ from each other and from "Introduction", the workbook has the
  Introduction sheet first, followed by one sheet per category, in the ascending order of
  the category values (the order of Python's strings), whatever the order of the rows:
  \<open>cats\<close> is the ascending list of the distinct strings of the Category column.
\<close>

theorem sheets_in_ascending_order:
  assumes "read_csv env (catalog_csv_file env) = Inr df"
    and "convert_csv_to_excel env s = (Inr (), s')"
    and "index_of (lit ''Category'') (columns df) = Some i"
    and "sorted cats" and "distinct cats"
    and "set cats = set (str_keys (map (cell_at i) (rows df)))"
    and "distinct (lit ''Introduction'' # map derive_sheet_name cats)"
  shows "\<exists>wb. xlsx s' (catalog_excel_file env) = Some wb
           \<and> sheet_titles wb = lit ''Introduction'' # map derive_sheet_name cats"
  using convert_csv_to_excel_workbook(1)[OF assms]
  by (simp add: sheet_titles_def comp_def)

theorem sheets_in_ascending_order_witness:
  "\<exists>wb. xlsx (snd (convert_csv_to_excel (ex_env ex_catalog) ex_catalog_fs))
            (catalog_excel_file (ex_env ex_catalog)) = Some wb
     \<and> sheet_titles wb = [lit ''Introduction'', lit ''Core System Files'', lit ''Ship System Files'']"
proof -
  have rd: "read_csv (ex_env ex_catalog) (catalog_csv_file (ex_env ex_catalog)) = Inr ex_catalog"
    by (simp add: ex_env_simps)
  have run: "convert_csv_to_excel (ex_env ex_catalog) ex_catalog_fs
      = (Inr (), snd (convert_csv_to_excel (ex_env ex_catalog) ex_catalog_fs))"
    using ex_catalog_run(1) by (rule run_pair)
  from sheets_in_ascending_order[OF rd run ex_catalog_keys(1) ex_catalog_cats]
  show ?thesis by (simp add: derive_examples)
qed

text \<open>
  Claim C2, as stated, on a catalog with a row whose Category is empty: the row is in the
  input and on no sheet of the workbook.
\<close>

theorem row_without_category_dropped:
  "[Str (lit ''Notes.txt''), Missing] \<in> set (rows ex_catalog)
   \<and> (\<exists>wb. xlsx (snd (convert_csv_to_excel (ex_env ex_catalog) ex_catalog_fs))
              (catalog_excel_file (ex_env ex_catalog)) = Some wb
         \<and> [Str (lit ''Notes.txt''), Missing] \<notin> set (concat (map sheet_rows wb)))"
proof -
  have "[Str (lit ''Notes.txt''), Missing] \<in> set (rows ex_catalog)"
    by (simp add: ex_catalog_def)
  moreover have "[Str (lit ''Notes.txt''), Missing]
      \<notin> set (concat (map sheet_rows
            [(lit ''Introduction'', intro_df (lit ''2025-01-31'')),
             (lit ''Core System Files'',
              ex_catalog\<lparr>rows := [[Str (lit ''GameManager.cs''), Str (lit ''Core System'')]]\<rparr>),
             (lit ''Ship System Files'',
              ex_catalog\<lparr>rows := [[Str (lit ''ShipGenerator.cs''), Str (lit ''Ship System'')],
                                  [Str (lit ''ShipEncounter.cs''), Str (lit ''Ship System'')]]\<rparr>)]))"
    by (auto simp: sheet_rows_def intro_df_def)
  ultimately show ?thesis
    using ex_catalog_run(2) by blast
qed

text \<open>
  Claim C2, amended: when the run completes, and the sheet names derived from the
  categories differ from each other and from "Introduction", the sheet of a category holds
  the input rows with that category, in their input order, and the rows of all category
  sheets together are the input rows whose Category is not missing, each once. The rows
  without category are left out.
\<close>

theorem category_sheets_partition_rows:
  assumes "read_csv env (catalog_csv_file env) = Inr df"
    and "convert_csv_to_excel env s = (Inr (), s')"
    and "index_of (lit ''Category'') (columns df) = Some i"
    and "sorted cats" and "distinct cats"
    and "set cats = set (str_keys (map (cell_at i) (rows df)))"
    and "distinct (lit ''Introduction'' # map derive_sheet_name cats)"
  shows "\<exists>wb. xlsx s' (catalog_excel_file env) = Some wb
           \<and> map fst (category_sheets wb) = map derive_sheet_name cats
           \<and> map sheet_rows (category_sheets wb)
               = map (\<lambda>c. filter (\<lambda>r. cell_at i r = Str c) (rows df)) cats
           \<and> mset (concat (map sheet_rows (category_sheets wb)))
               = mset (filter (\<lambda>r. cell_at i r \<noteq> Missing) (rows df))"
proof -
  let ?g = "\<lambda>c. df\<lparr>rows := filter (\<lambda>r. cell_at i r = Str c) (rows df)\<rparr>"
  let ?cs = "map (\<lambda>c. (derive_sheet_name c, ?g c)) cats"
  let ?wb = "(lit ''Introduction'', intro_df (today env)) # ?cs"
  have wb: "xlsx s' (catalog_excel_file env) = Some ?wb"
    and nums: "num_keys (map (cell_at i) (rows df)) = []"
    using convert_csv_to_excel_workbook[OF assms] by simp_all
  have "\<forall>sh\<in>set ?cs. fst sh \<noteq> lit ''Introduction''"
    using assms(7) by force
  then have "filter (\<lambda>sh. fst sh \<noteq> lit ''Introduction'') ?cs = ?cs"
    by (simp only: filter_True)
  then have cat: "category_sheets ?wb = ?cs"
    by (simp add: category_sheets_def)
  have rows_eq: "map sheet_rows ?cs = map (\<lambda>c. filter (\<lambda>r. cell_at i r = Str c) (rows df)) cats"
    by (simp add: sheet_rows_def comp_def)
  have "mset (concat (map sheet_rows ?cs))
      = mset (filter (\<lambda>r. \<exists>c\<in>set cats. cell_at i r = Str c) (rows df))"
    unfolding rows_eq using assms(5) by (rule groups_mset)
  also have "\<dots> = mset (filter (\<lambda>r. cell_at i r \<noteq> Missing) (rows df))"
    using groups_cover[of cats "cell_at i" "rows df"] assms(6) nums by simp
  finally have "mset (concat (map sheet_rows ?cs))
      = mset (filter (\<lambda>r. cell_at i r \<noteq> Missing) (rows df))" .
  moreover have "map fst ?cs = map derive_sheet_name cats"
    by (simp add: comp_def)
  ultimately show ?thesis
    using wb cat rows_eq by (intro exI[of _ ?wb]) (simp only: simp_thms)
qed

theorem category_sheets_partition_rows_witness:
  "\<exists>wb. xlsx (snd (convert_csv_to_excel (ex_env ex_catalog) ex_catalog_fs))
            (catalog_excel_file (ex_env ex_catalog)) = Some wb
     \<and> map fst (category_sheets wb) = [lit ''Core System Files'', lit ''Ship System Files'']
     \<and> map sheet_rows (category_sheets wb)
         = [[[Str (lit ''GameManager.cs''), Str (lit ''Core System'')]],
            [[Str (lit ''ShipGenerator.cs''), Str (lit ''Ship System'')],
             [Str (lit ''ShipEncounter.cs''), Str (lit ''Ship System'')]]]
     \<and> mset (concat (map sheet_rows (category_sheets wb)))
         = mset [[Str (lit ''ShipGenerator.cs''), Str (lit ''Ship System'')],
                 [Str (lit ''GameManager.cs''), Str (lit ''Core System'')],
                 [Str (lit ''ShipEncounter.cs''), Str (lit ''Ship System'')]]"
proof -
  have rd: "read_csv (ex_env ex_catalog) (catalog_csv_file (ex_env ex_catalog)) = Inr ex_catalog"
    by (simp add: ex_env_simps)
  have run: "convert_csv_to_excel (ex_env ex_catalog) ex_catalog_fs
      = (Inr (), snd (convert_csv_to_excel (ex_env ex_catalog) ex_catalog_fs))"
    using ex_catalog_run(1) by (rule run_pair)
  have f: "filter (\<lambda>r. cell_at (Suc 0) r = Str (lit ''Core System'')) (rows ex_catalog)
      = [[Str (lit ''GameManager.cs''), Str (lit ''Core System'')]]"
    "filter (\<lambda>r. cell_at (Suc 0) r = Str (lit ''Ship System'')) (rows ex_catalog)
      = [[Str (lit ''ShipGenerator.cs''), Str (lit ''Ship System'')],
         [Str (lit ''ShipEncounter.cs''), Str (lit ''Ship System'')]]"
    "filter (\<lambda>r. cell_at (Suc 0) r \<noteq> Missing) (rows ex_catalog)
      = [[Str (lit ''ShipGenerator.cs''), Str (lit ''Ship System'')],
         [Str (lit ''GameManager.cs''), Str (lit ''Core System'')],
         [Str (lit ''ShipEncounter.cs''), Str (lit ''Ship System'')]]"
    by (simp_all add: ex_catalog_def cell_at_def) (simp_all add: lit_def)
  from category_sheets_partition_rows[OF rd run ex_catalog_keys(1) ex_catalog_cats]
  show ?thesis by (simp add: derive_examples f)
qed

text \<open>
  Claim C4, as stated, at the category "Visual Effects": the substitution leaves the name
  as it is, and the sheet name "Visual Effects Files" comes from the second special case.
\<close>

theorem visual_effects_by_special_case:
  "py_replace (lit ''System'') (lit ''System Files'') (lit ''Visual Effects'') = lit ''Visual Effects''
   \<and> lit ''Visual Effects'' \<noteq> lit ''Visual Effects Files''
   \<and> derive_sheet_name (lit ''Visual Effects'') = lit ''Visual Effects Files''"
  by (simp add: replace_examples derive_examples) (simp add: lit_def)

text \<open>
  Claim C4, amended: for a catalog whose rows have the Category values "Core System",
  "Ship System", "Visual Effects" in that order, and a run in which no call of the library
  raises, the sheets are, in this order, Introduction, "Core System Files", "Ship System
  Files", "Visual Effects Files". The first two category names are what the substitution
  gives; the substitution leaves "Visual Effects" unchanged and the third name comes from
  the special case for it.
\<close>

theorem scenario3_sheets:
  assumes "read_csv env (catalog_csv_file env) = Inr df"
    and "index_of (lit ''Category'') (columns df) = Some i"
    and "map (cell_at i) (rows df)
           = [Str (lit ''Core System''), Str (lit ''Ship System''), Str (lit ''Visual Effects'')]"
    and "ExcelWriter_error env (catalog_excel_file env) = None"
    and "\<forall>n t. to_excel_error env n t = None"
  shows "fst (convert_csv_to_excel env s) = Inr ()
       \<and> map_option sheet_titles (xlsx (snd (convert_csv_to_excel env s)) (catalog_excel_file env))
           = Some [lit ''Introduction'', lit ''Core System Files'', lit ''Ship System Files'',
                   lit ''Visual Effects Files'']
       \<and> py_replace (lit ''System'') (lit ''System Files'') (lit ''Core System'')
           = lit ''Core System Files''
       \<and> py_replace (lit ''System'') (lit ''System Files'') (lit ''Ship System'')
           = lit ''Ship System Files''
       \<and> py_replace (lit ''System'') (lit ''System Files'') (lit ''Visual Effects'')
           = lit ''Visual Effects''"
proof -
  have grp: "groupby df (lit ''Category'') =
      Inr (map (\<lambda>k. (k, df\<lparr>rows := filter (\<lambda>r. cell_at i r = k) (rows df)\<rparr>))
        [Str (lit ''Core System''), Str (lit ''Ship System''), Str (lit ''Visual Effects'')])"
    by (simp add: groupby_def assms(2,3) Let_def) (simp add: lit_def)
  have "fst (convert_csv_to_excel env s) = Inr ()
       \<and> map_option sheet_titles (xlsx (snd (convert_csv_to_excel env s)) (catalog_excel_file env))
           = Some [lit ''Introduction'', lit ''Core System Files'', lit ''Ship System Files'',
                   lit ''Visual Effects Files'']"
    by (simp add: convert_csv_to_excel_def Let_def assms(1,4,5) grp derive_examples
        ex_names_distinct sheet_titles_def)
  then show ?thesis
    by (simp add: replace_examples)
qed

theorem scenario3_sheets_witness:
  "fst (convert_csv_to_excel (ex_env ex_scenario3) ex_catalog_fs) = Inr ()
   \<and> map_option sheet_titles
       (xlsx (snd (convert_csv_to_excel (ex_env ex_scenario3) ex_catalog_fs))
             (catalog_excel_file (ex_env ex_scenario3)))
       = Some [lit ''Introduction'', lit ''Core System Files'', lit ''Ship System Files'',
               lit ''Visual Effects Files'']"
proof -
  have rd: "read_csv (ex_env ex_scenario3) (catalog_csv_file (ex_env ex_scenario3)) = Inr ex_scenario3"
    by (simp add: ex_env_simps)
  have ix: "index_of (lit ''Category'') (columns ex_scenario3) = Some (Suc 0)"
    by (simp add: ex_scenario3_def) (simp add: lit_def)
  have keys: "map (cell_at (Suc 0)) (rows ex_scenario3)
           = [Str (lit ''Core System''), Str (lit ''Ship System''), Str (lit ''Visual Effects'')]"
    by (simp add: ex_scenario3_def cell_at_def)
  have w: "ExcelWriter_error (ex_env ex_scenario3) (catalog_excel_file (ex_env ex_scenario3)) = None"
    "\<forall>n t. to_excel_error (ex_env ex_scenario3) n t = None"
    by (simp_all add: ex_env_simps)
  from scenario3_sheets[OF rd ix keys w, of ex_catalog_fs]
  show ?thesis by simp
qed

text \<open>
  Claim C5: when the catalog that was read has no column named "Category", the script
  ends with \<open>KeyError\<close> at the grouping, before the writer is created: the process exits
  with status 1 and the state, the output path with it, is as it was.
\<close>

theorem missing_category_column_fatal:
  assumes "read_csv env (catalog_csv_file env) = Inr df"
    and "lit ''Category'' \<notin> set (columns df)"
  shows "convert_csv_to_excel env s = (Inl (KeyError (lit ''Category'')), s)
       \<and> convert_to_excel_main env s = (1, s)
       \<and> xlsx (snd (convert_to_excel_main env s)) (catalog_excel_file env)
           = xlsx s (catalog_excel_file env)"
proof -
  have "index_of (lit ''Category'') (columns df) = None"
    using assms(2) by (simp add: index_of_None)
  then have "groupby df (lit ''Category'') = Inl (KeyError (lit ''Category''))"
    by (simp add: groupby_def)
  with assms(1) have "convert_csv_to_excel env s = (Inl (KeyError (lit ''Category'')), s)"
    by (simp add: convert_csv_to_excel_def Let_def)
  then show ?thesis
    by (simp add: convert_to_excel_main_def)
qed

theorem missing_category_column_fatal_witness:
  "convert_csv_to_excel (ex_env ex_no_category) ex_catalog_fs
     = (Inl (KeyError (lit ''Category'')), ex_catalog_fs)
   \<and> convert_to_excel_main (ex_env ex_no_category) ex_catalog_fs = (1, ex_catalog_fs)
   \<and> xlsx (snd (convert_to_excel_main (ex_env ex_no_category) ex_catalog_fs))
          (catalog_excel_file (ex_env ex_no_category)) = None"
proof -
  have rd: "read_csv (ex_env ex_no_category) (catalog_csv_file (ex_env ex_no_category))
      = Inr ex_no_category"
    by (simp add: ex_env_simps)
  have nc: "lit ''Category'' \<notin> set (columns ex_no_category)"
    by (simp add: ex_no_category_def) (simp add: lit_def)
  from missing_category_column_fatal[OF rd nc, of ex_catalog_fs]
  show ?thesis by (simp add: ex_catalog_fs_def)
qed


end
